theory Spec2Isabelle
  imports Complex_Main
begin

section \<open>Python values, strings and exceptions\<close>

text \<open>
  A Python \<open>str\<close> is modelled as a \<open>string\<close>, one \<open>char\<close> per code point, which covers
  the code points below 256. What an external call (the operating system, the
  speech library) can raise is an interrupt or an ordinary exception; the exception
  carries \<open>str(e)\<close>, the only part of it the program reads.
\<close>

datatype exc = KeyboardInterrupt | Exception string

text \<open>\<open>str.lower()\<close> on the code points below 256: A-Z and the Latin-1 capitals.\<close>

definition lower_char :: "char \<Rightarrow> char" where
  "lower_char c =
     (let n = (of_char c :: nat)
      in if (65 \<le> n \<and> n \<le> 90) \<or> (192 \<le> n \<and> n \<le> 222 \<and> n \<noteq> 215)
         then char_of (n + 32) else c)"

definition lower :: "string \<Rightarrow> string" where
  "lower s = map lower_char s"

text \<open>\<open>str.isspace()\<close> of one code point below 256.\<close>

definition isspace :: "char \<Rightarrow> bool" where
  "isspace c =
     (let n = (of_char c :: nat)
      in (9 \<le> n \<and> n \<le> 13) \<or> (28 \<le> n \<and> n \<le> 32) \<or> n = 133 \<or> n = 160)"

text \<open>\<open>str.strip()\<close> with no argument: leading whitespace goes, then trailing whitespace.\<close>

definition lstrip :: "string \<Rightarrow> string" where
  "lstrip s = dropWhile isspace s"

definition rstrip :: "string \<Rightarrow> string" where
  "rstrip s = rev (dropWhile isspace (rev s))"

definition strip :: "string \<Rightarrow> string" where
  "strip s = rstrip (lstrip s)"

text \<open>\<open>str.rfind(c)\<close>: the index of the last occurrence of \<open>c\<close>, or -1.\<close>

fun rfind :: "char \<Rightarrow> string \<Rightarrow> int" where
  "rfind c [] = -1"
| "rfind c (x # xs) =
     (let r = rfind c xs in if 0 \<le> r then r + 1 else if x = c then 0 else -1)"

section \<open>The file system and \<open>pathlib\<close>\<close>

text \<open>
  The file system is a map from the paths that exist to the size in bytes of what is
  there. \<open>os.path.exists\<close> never raises; \<open>os.path.getsize\<close> raises \<open>OSError\<close> on a
  path that does not exist.
\<close>

type_synonym filesystem = "string \<rightharpoonup> nat"

definition os_path_exists :: "filesystem \<Rightarrow> string \<Rightarrow> bool" where
  "os_path_exists fs p = (fs p \<noteq> None)"

definition os_path_getsize :: "filesystem \<Rightarrow> string \<Rightarrow> exc + nat" where
  "os_path_getsize fs p =
     (case fs p of
        None \<Rightarrow> Inl (Exception (''[Errno 2] No such file or directory: '' @ p))
      | Some n \<Rightarrow> Inr n)"

text \<open>\<open>os.path.basename\<close>: what follows the last slash.\<close>

definition os_path_basename :: "string \<Rightarrow> string" where
  "os_path_basename p = drop (nat (rfind (CHR ''/'') p + 1)) p"

text \<open>
  \<open>Path(p).suffix\<close> on a POSIX host. The path is cut at the slashes, empty components
  and \<open>.\<close> components are dropped, and the name is the last component left (empty when
  none is). The suffix is the name from its last dot on, when that dot is neither the
  first nor the last character of the name.
\<close>

fun split_slash :: "string \<Rightarrow> string list" where
  "split_slash [] = [[]]"
| "split_slash (c # cs) =
     (if c = CHR ''/'' then [] # split_slash cs
      else (case split_slash cs of
              [] \<Rightarrow> [[c]]
            | w # ws \<Rightarrow> (c # w) # ws))"

definition path_parts :: "string \<Rightarrow> string list" where
  "path_parts p = filter (\<lambda>w. w \<noteq> [] \<and> w \<noteq> ''.'') (split_slash p)"

definition path_name :: "string \<Rightarrow> string" where
  "path_name p = (case rev (path_parts p) of [] \<Rightarrow> [] | w # _ \<Rightarrow> w)"

definition name_suffix :: "string \<Rightarrow> string" where
  "name_suffix n =
     (let i = rfind (CHR ''.'') n
      in if 0 < i \<and> i < int (length n) - 1 then drop (nat i) n else [])"

definition path_suffix :: "string \<Rightarrow> string" where
  "path_suffix p = name_suffix (path_name p)"

section \<open>The input validator\<close>

definition valid_extensions :: "string list" where
  "valid_extensions = [''.mp3'', ''.wav'', ''.m4a'', ''.ogg'', ''.flac'', ''.aac'']"

definition validate_audio_file :: "filesystem \<Rightarrow> string \<Rightarrow> exc + bool" where
  "validate_audio_file fs file_path =
     (if \<not> os_path_exists fs file_path then Inr False
      else case os_path_getsize fs file_path of
             Inl e \<Rightarrow> Inl e
           | Inr sz \<Rightarrow>
               if sz < 1024 then Inr False
               else Inr (lower (path_suffix file_path) \<in> set valid_extensions))"

text \<open>
  The allow-list in the words of the specification: extensions named without their
  dot. The extension of a path is its suffix without the leading dot, when it has one.
\<close>

definition allowed_extensions :: "string list" where
  "allowed_extensions = [''mp3'', ''wav'', ''m4a'', ''ogg'', ''flac'', ''aac'']"

definition file_extension :: "string \<Rightarrow> string option" where
  "file_extension p = (case path_suffix p of [] \<Rightarrow> None | _ # e \<Rightarrow> Some e)"

section \<open>What the program prints\<close>

text \<open>
  A dictionary handed to \<open>json.dumps\<close> is an association list in insertion order; its
  values are \<open>None\<close>, strings, integers and floats. A float is modelled by the rational
  it stands for, so rounding error is outside the model. A line of output is either the
  serialisation of such a dictionary or free text.
\<close>

datatype pyval = PNone | PStr string | PInt int | PFloat rat

type_synonym pydict = "(string \<times> pyval) list"

datatype out_line = JsonLine pydict | TextLine string

datatype log_message =
    LoadingModel string
  | ModelLoaded rat
  | FailedToLoadModel string
  | Transcribing string
  | TranscriptionCompleted rat
  | TextLengthSegments nat nat
  | TranscriptionFailed string

datatype err_line = LogRecord nat log_message | ErrJson pydict | Traceback string

section \<open>The speech library and the host\<close>

text \<open>
  The library is an external collaborator: loading a model gives a handle or raises,
  decoding gives a lazy sequence of segments and an info object, or raises. The lazy
  sequence yields the text of one segment at a time and may raise while it is consumed.
  \<open>info_language\<close> is \<open>None\<close> when the info object has no attribute \<open>language\<close>.
\<close>

type_synonym handle = nat

datatype segments = StopIteration | Yield string segments | Raises exc

record transcription_info =
  info_language :: "string option"

record vad_parameters =
  min_silence_duration_ms :: nat
  threshold :: rat
  speech_pad_ms :: nat

record transcribe_options =
  beam_size :: nat
  best_of :: nat
  patience :: rat
  temperature :: rat
  condition_on_previous_text :: bool
  vad_filter :: bool
  vad_params :: vad_parameters
  word_timestamps :: bool
  without_timestamps :: bool

text \<open>
  The world of one run: the file system, the number of cores, whether the library can be
  imported, the library's two operations, and the two intervals the program measures
  with \<open>time.time()\<close>. The cache directory and \<open>local_files_only\<close> are constants of
  the load call and are left out of its arguments. The file system stays as it is while
  the program runs. \<open>print_error ensure_ascii d\<close> is what
  \<open>print(json.dumps(d, ensure_ascii=...))\<close> raises on this host: \<open>None\<close> when the line
  is written to standard output, the message of the exception otherwise (a
  \<open>UnicodeEncodeError\<close> when the encoding of standard output cannot encode the text, an
  \<open>OSError\<close> when standard output is closed or broken). \<open>stderr_error\<close> is the same
  for the one object the script prints to standard error.
\<close>

record world =
  files :: filesystem
  cpu_count :: "nat option"
  faster_whisper_installed :: bool
  WhisperModel :: "string \<Rightarrow> string \<Rightarrow> string \<Rightarrow> nat \<Rightarrow> exc + handle"
  model_transcribe ::
    "handle \<Rightarrow> string \<Rightarrow> string option \<Rightarrow> transcribe_options
       \<Rightarrow> exc + (segments \<times> transcription_info)"
  load_seconds :: rat
  transcription_seconds :: rat
  print_error :: "bool \<Rightarrow> pydict \<Rightarrow> string option"
  stderr_error :: "pydict \<Rightarrow> string option"

datatype lib_event =
    LoadModel "exc + handle"
  | Transcribe handle string "string option"

text \<open>
  The state of the process outside the transcriber object: the level of the root
  logger, what was written to standard output and to standard error, and the calls
  made to the library so far.
\<close>

record process =
  root_level :: nat
  stdout :: "out_line list"
  stderr :: "err_line list"
  library_calls :: "lib_event list"

definition INFO :: nat where "INFO = 20"
definition WARNING :: nat where "WARNING = 30"
definition ERROR :: nat where "ERROR = 40"

definition initial_process :: process where
  "initial_process =
     \<lparr>root_level = WARNING, stdout = [], stderr = [], library_calls = []\<rparr>"

definition logger_log :: "nat \<Rightarrow> log_message \<Rightarrow> process \<Rightarrow> process" where
  "logger_log lvl msg p =
     (if root_level p \<le> lvl then p\<lparr>stderr := stderr p @ [LogRecord lvl msg]\<rparr> else p)"

definition logger_info :: "log_message \<Rightarrow> process \<Rightarrow> process" where
  "logger_info = logger_log INFO"

definition logger_error :: "log_message \<Rightarrow> process \<Rightarrow> process" where
  "logger_error = logger_log ERROR"

text \<open>\<open>except Exception as e: logger.error(...); raise\<close>: an interrupt passes unlogged.\<close>

definition log_and_reraise :: "(string \<Rightarrow> log_message) \<Rightarrow> exc \<Rightarrow> process \<Rightarrow> process" where
  "log_and_reraise mk e p =
     (case e of Exception m \<Rightarrow> logger_error (mk m) p | KeyboardInterrupt \<Rightarrow> p)"

text \<open>
  \<open>print(json.dumps(d, ensure_ascii=...))\<close>: the line is written, or an exception with
  the returned message is raised and nothing is written. The calls of the logger do not
  raise: \<open>logging\<close> handles the errors of its handlers itself.
\<close>

definition print_json :: "world \<Rightarrow> bool \<Rightarrow> pydict \<Rightarrow> process \<Rightarrow> string option \<times> process" where
  "print_json w ensure_ascii d p =
     (case print_error w ensure_ascii d of
        None \<Rightarrow> (None, p\<lparr>stdout := stdout p @ [JsonLine d]\<rparr>)
      | Some m \<Rightarrow> (Some m, p))"

text \<open>
  An exception that nothing catches: the interpreter reports it on standard error and the
  process ends with status 1.
\<close>

definition uncaught :: "string \<Rightarrow> process \<Rightarrow> int \<times> process" where
  "uncaught m p = (1, p\<lparr>stderr := stderr p @ [Traceback m]\<rparr>)"

definition called :: "lib_event \<Rightarrow> process \<Rightarrow> process" where
  "called ev p = p\<lparr>library_calls := library_calls p @ [ev]\<rparr>"

section \<open>The transcription wrapper\<close>

record transcriber =
  model_size :: string
  device :: string
  language :: "string option"
  compute_type :: string
  model :: "handle option"
  cpu_threads :: nat

text \<open>\<open>language if language and language != "auto" else None\<close>\<close>

definition normalize_language :: "string option \<Rightarrow> string option" where
  "normalize_language l =
     (case l of
        None \<Rightarrow> None
      | Some s \<Rightarrow> if s \<noteq> [] \<and> s \<noteq> ''auto'' then Some s else None)"

text \<open>\<open>min(4, os.cpu_count() or 4)\<close>\<close>

definition default_cpu_threads :: "nat option \<Rightarrow> nat" where
  "default_cpu_threads c =
     min 4 (case c of None \<Rightarrow> 4 | Some n \<Rightarrow> if n = 0 then 4 else n)"

definition FasterWhisperTranscriber ::
  "world \<Rightarrow> string \<Rightarrow> string \<Rightarrow> string option \<Rightarrow> string \<Rightarrow> transcriber" where
  "FasterWhisperTranscriber w msize dev lang ctype =
     \<lparr>model_size = msize,
      device = dev,
      language = normalize_language lang,
      compute_type = ctype,
      model = None,
      cpu_threads = default_cpu_threads (cpu_count w)\<rparr>"

definition load_model ::
  "world \<Rightarrow> transcriber \<Rightarrow> process \<Rightarrow> (exc + unit) \<times> transcriber \<times> process" where
  "load_model w self p =
     (let p1 = logger_info (LoadingModel (model_size self)) p;
          r = WhisperModel w (model_size self) (device self) (compute_type self)
                (cpu_threads self);
          p2 = called (LoadModel r) p1
      in case r of
           Inr h \<Rightarrow>
             (Inr (), self\<lparr>model := Some h\<rparr>, logger_info (ModelLoaded (load_seconds w)) p2)
         | Inl e \<Rightarrow> (Inl e, self, log_and_reraise FailedToLoadModel e p2))"

definition fixed_options :: transcribe_options where
  "fixed_options =
     \<lparr>beam_size = 1, best_of = 1, patience = 1, temperature = 0,
      condition_on_previous_text = False,
      vad_filter = True,
      vad_params = \<lparr>min_silence_duration_ms = 500, threshold = 1 / 2, speech_pad_ms = 400\<rparr>,
      word_timestamps = False,
      without_timestamps = True\<rparr>"

text \<open>The \<open>for segment in segments\<close> loop, with its two accumulators.\<close>

fun for_segments :: "segments \<Rightarrow> string \<Rightarrow> nat \<Rightarrow> exc + (string \<times> nat)" where
  "for_segments StopIteration full_text segment_count = Inr (full_text, segment_count)"
| "for_segments (Yield t rest) full_text segment_count =
     for_segments rest (full_text @ t @ '' '') (segment_count + 1)"
| "for_segments (Raises e) full_text segment_count = Inl e"

text \<open>\<open>round(x, 2)\<close> on the rational \<open>x\<close>: to the nearest hundredth, ties to even.\<close>

definition round_half_even :: "rat \<Rightarrow> int" where
  "round_half_even x =
     (let f = \<lfloor>x\<rfloor>; d = x - of_int f
      in if d < 1 / 2 then f else if 1 / 2 < d then f + 1
         else if even f then f else f + 1)"

definition round2 :: "rat \<Rightarrow> rat" where
  "round2 x = of_int (round_half_even (x * 100)) / 100"

text \<open>
  The body of the \<open>try\<close> in \<open>transcribe_file\<close>. A transcriber whose \<open>model\<close> is \<open>None\<close>
  cannot call \<open>self.model.transcribe\<close>: Python raises \<open>AttributeError\<close> there.
\<close>

definition transcribe_try ::
  "world \<Rightarrow> transcriber \<Rightarrow> string \<Rightarrow> process \<Rightarrow> (exc + pydict) \<times> process" where
  "transcribe_try w self audio_path p =
     (let p1 = logger_info (Transcribing (os_path_basename audio_path)) p
      in case model self of
           None \<Rightarrow>
             (Inl (Exception (CHR 0x27 # ''NoneType'' @ CHR 0x27 # '' object has no attribute ''
                              @ CHR 0x27 # ''transcribe'' @ [CHR 0x27])), p1)
         | Some h \<Rightarrow>
             (let p2 = called (Transcribe h audio_path (language self)) p1
              in case model_transcribe w h audio_path (language self) fixed_options of
                   Inl e \<Rightarrow> (Inl e, p2)
                 | Inr (segs, info) \<Rightarrow>
                     (case for_segments segs [] 0 of
                        Inl e \<Rightarrow> (Inl e, p2)
                      | Inr (full_text, segment_count) \<Rightarrow>
                          (case os_path_getsize (files w) audio_path of
                             Inl e \<Rightarrow> (Inl e, p2)
                           | Inr sz \<Rightarrow>
                               (let result =
                                      [(''text'', PStr (strip full_text)),
                                       (''language'',
                                          (case info_language info of
                                             Some l \<Rightarrow> PStr l
                                           | None \<Rightarrow>
                                               (case language self of
                                                  Some l \<Rightarrow> PStr l
                                                | None \<Rightarrow> PNone))),
                                       (''duration'', PFloat (transcription_seconds w)),
                                       (''segments'', PInt (int segment_count)),
                                       (''model_size'', PStr (model_size self)),
                                       (''file_size_mb'',
                                          PFloat (round2 (of_nat sz / (1024 * 1024))))];
                                    p3 = logger_info
                                           (TranscriptionCompleted (transcription_seconds w)) p2;
                                    p4 = logger_info
                                           (TextLengthSegments (length (strip full_text))
                                              segment_count) p3
                                in (Inr result, p4))))))"

definition transcribe_file ::
  "world \<Rightarrow> transcriber \<Rightarrow> string \<Rightarrow> process
     \<Rightarrow> (exc + pydict) \<times> transcriber \<times> process" where
  "transcribe_file w self audio_path p =
     (if \<not> os_path_exists (files w) audio_path
      then (Inl (Exception (''Audio file not found: '' @ audio_path)), self, p)
      else case (if model self = None then load_model w self p else (Inr (), self, p)) of
             (Inl e, self1, p1) \<Rightarrow> (Inl e, self1, p1)
           | (Inr u, self1, p1) \<Rightarrow>
               (case transcribe_try w self1 audio_path p1 of
                  (Inl e, p2) \<Rightarrow> (Inl e, self1, log_and_reraise TranscriptionFailed e p2)
                | (Inr result, p2) \<Rightarrow> (Inr result, self1, p2)))"

section \<open>The command line\<close>

text \<open>
  \<open>parse_args\<close> belongs to \<open>argparse\<close>: it returns the namespace of the five
  arguments, or it leaves the process itself, with status 0 after printing the help text
  to standard output (\<open>--help\<close>) and with status 2 after a usage message on standard
  error (no audio file, a \<open>--model\<close> outside its choices, an unknown option). Its result
  is a parameter of \<open>main\<close>. The fields \<open>arg_model\<close>, \<open>arg_language\<close> and \<open>arg_device\<close>
  are \<open>args.model\<close>, \<open>args.language\<close> and \<open>args.device\<close>.
\<close>

record args =
  audio_file :: string
  arg_model :: string
  arg_language :: string
  arg_device :: string
  verbose :: bool

datatype parse_result = Namespace args | ParserExit int "out_line list"

text \<open>
  How a block of statements ends: it runs to its end, it raises, or it calls
  \<open>sys.exit\<close>. \<open>SystemExit\<close> is not an \<open>Exception\<close>, so neither handler of \<open>main\<close>
  catches it.
\<close>

datatype completion = Returned | Raised exc | SysExit int

definition main_try :: "world \<Rightarrow> args \<Rightarrow> process \<Rightarrow> completion \<times> process" where
  "main_try w a p =
     (case validate_audio_file (files w) (audio_file a) of
        Inl e \<Rightarrow> (Raised e, p)
      | Inr ok \<Rightarrow>
          if \<not> ok
          then (case print_json w True
                       [(''error'', PStr (''Invalid or missing audio file: '' @ audio_file a))] p of
                  (Some m, p1) \<Rightarrow> (Raised (Exception m), p1)
                | (None, p1) \<Rightarrow> (SysExit 1, p1))
          else
            (let transcriber =
                   FasterWhisperTranscriber w (arg_model a) (arg_device a)
                     (if arg_language a \<noteq> ''auto'' then Some (arg_language a) else None)
                     ''int8''
             in case transcribe_file w transcriber (audio_file a) p of
                  (Inl e, self1, p1) \<Rightarrow> (Raised e, p1)
                | (Inr result, self1, p1) \<Rightarrow>
                    (case print_json w False result p1 of
                       (Some m, p2) \<Rightarrow> (Raised (Exception m), p2)
                     | (None, p2) \<Rightarrow> (Returned, p2))))"

text \<open>
  \<open>main\<close> returns the exit status of the process and its final state. The two
  handlers print with the default \<open>ensure_ascii\<close> and then call \<open>sys.exit(1)\<close>; an
  exception raised by the print of a handler leaves \<open>main\<close> uncaught.
\<close>

definition main :: "world \<Rightarrow> parse_result \<Rightarrow> process \<Rightarrow> int \<times> process" where
  "main w parsed p =
     (case parsed of
        ParserExit status out \<Rightarrow> (status, p\<lparr>stdout := stdout p @ out\<rparr>)
      | Namespace a \<Rightarrow>
          (let p0 = (if verbose a then p\<lparr>root_level := INFO\<rparr> else p)
           in case main_try w a p0 of
                (Returned, p1) \<Rightarrow> (0, p1)
              | (SysExit status, p1) \<Rightarrow> (status, p1)
              | (Raised KeyboardInterrupt, p1) \<Rightarrow>
                  (case print_json w True
                          [(''error'', PStr ''Transcription cancelled by user'')] p1 of
                     (None, p2) \<Rightarrow> (1, p2)
                   | (Some m2, p2) \<Rightarrow> uncaught m2 p2)
              | (Raised (Exception m), p1) \<Rightarrow>
                  (case print_json w True
                          [(''error'', PStr (''Transcription failed: '' @ m))] p1 of
                     (None, p2) \<Rightarrow> (1, p2)
                   | (Some m2, p2) \<Rightarrow> uncaught m2 p2)))"

text \<open>
  The script from its first line: without the library it prints a JSON object to
  standard error and exits with status 1 before any argument is parsed.
\<close>

definition not_installed_error :: pydict where
  "not_installed_error =
     [(''error'', PStr ''faster-whisper not installed. Run: pip install faster-whisper'')]"

definition script :: "world \<Rightarrow> parse_result \<Rightarrow> int \<times> process" where
  "script w parsed =
     (if \<not> faster_whisper_installed w
      then (case stderr_error w not_installed_error of
              None \<Rightarrow> (1, initial_process\<lparr>stderr := [ErrJson not_installed_error]\<rparr>)
            | Some m \<Rightarrow> uncaught m initial_process)
      else main w parsed initial_process)"

text \<open>
  Repeated requests to one transcriber, each in the world of its moment; what a request
  returns or raises is dropped, the transcriber and the process are carried on.
\<close>

fun transcribe_calls ::
  "(world \<times> string) list \<Rightarrow> transcriber \<Rightarrow> process \<Rightarrow> transcriber \<times> process" where
  "transcribe_calls [] self p = (self, p)"
| "transcribe_calls ((w, audio_path) # cs) self p =
     (case transcribe_file w self audio_path p of
        (r, self1, p1) \<Rightarrow> transcribe_calls cs self1 p1)"

text \<open>
  The discipline of lazy initialisation, read off a trace of library calls from the
  handle held before it: a load happens only while no handle is held, and a decode
  uses exactly the handle held.
\<close>

fun handle_after :: "handle option \<Rightarrow> lib_event list \<Rightarrow> handle option" where
  "handle_after m [] = m"
| "handle_after m (LoadModel r # es) =
     handle_after (case r of Inl e \<Rightarrow> m | Inr h \<Rightarrow> Some h) es"
| "handle_after m (Transcribe h a l # es) = handle_after m es"

fun lazy_discipline :: "handle option \<Rightarrow> lib_event list \<Rightarrow> bool" where
  "lazy_discipline m [] = True"
| "lazy_discipline m (LoadModel r # es) =
     (m = None \<and> lazy_discipline (case r of Inl e \<Rightarrow> None | Inr h \<Rightarrow> Some h) es)"
| "lazy_discipline m (Transcribe h a l # es) = (m = Some h \<and> lazy_discipline m es)"

fun load_succeeded :: "lib_event \<Rightarrow> bool" where
  "load_succeeded (LoadModel (Inr h)) = True"
| "load_succeeded ev = False"

fun decode_language :: "lib_event \<Rightarrow> string option option" where
  "decode_language (Transcribe h a l) = Some l"
| "decode_language ev = None"

text \<open>
  The text of the result in the words of the specification: the texts of the segments
  with one space between consecutive ones.
\<close>

fun join_with_space :: "string list \<Rightarrow> string" where
  "join_with_space [] = []"
| "join_with_space [t] = t"
| "join_with_space (t # u # ts) = t @ '' '' @ join_with_space (u # ts)"

fun segments_of :: "string list \<Rightarrow> segments" where
  "segments_of [] = StopIteration"
| "segments_of (t # ts) = Yield t (segments_of ts)"

section \<open>The smoke-test harness\<close>

text \<open>
  The harness sees the file system as the set of paths that exist. Its exceptions are
  told apart by the handlers that catch them: the timeout of the child, the JSON decode
  error, the import error, any other \<open>Exception\<close>, and an interrupt, which no handler
  of the harness catches.
\<close>

datatype harness_exc =
  TimeoutExpired | JSONDecodeError | ImportError | OtherException string | Interrupted

text \<open>
  What \<open>json.loads\<close> returns: an integer literal gives an \<open>int\<close> of any size, any other
  number a float; \<open>JNonFinite\<close> stands for the floats \<open>Infinity\<close>, \<open>-Infinity\<close> and
  \<open>NaN\<close>, which \<open>json.loads\<close> accepts. The list of a \<open>JObject\<close> holds the items of the
  dictionary, one per key.
\<close>

datatype json =
    JNull | JBool bool | JInt int | JFloat rat | JNonFinite | JString string
  | JArray "json list" | JObject "(string \<times> json) list"

record completed_process =
  returncode :: int
  child_stdout :: string
  child_stderr :: string

text \<open>
  The host of the harness: whether the script is there, the run of \<open>--help\<close>, the status
  of \<open>which espeak\<close>, what \<open>espeak\<close> leaves on the file system, the run of the script
  on the test file (which may change the file system too), what \<open>json.loads\<close> returns
  or raises, the message of the \<open>OSError\<close> with which \<open>os.remove\<close> refuses a path that
  exists (\<open>None\<close> when it removes it), the message of the exception that the
  \<open>print\<close> statement at a line of the source raises (\<open>None\<close> when it prints), whether
  the Python version is at least 3.8, and what \<open>import faster_whisper\<close> raises.
  \<open>os.system\<close> returns a status and does not raise, so the bare \<open>except\<close> of
  \<open>create_test_audio\<close> has nothing to catch.
\<close>

record harness_host =
  script_present :: bool
  help_run :: "harness_exc + completed_process"
  which_espeak :: int
  espeak :: "string set \<Rightarrow> string set"
  transcription_run :: "string set \<Rightarrow> (harness_exc + completed_process) \<times> string set"
  json_loads :: "string \<Rightarrow> harness_exc + json"
  remove_error :: "string \<Rightarrow> string set \<Rightarrow> string option"
  print_raises :: "nat \<Rightarrow> string option"
  python_version_ok :: bool
  import_faster_whisper :: "harness_exc option"

text \<open>How a block of the harness ends: it goes on, it returns a value, or it raises.\<close>

datatype flow = Next | Return bool | Throw harness_exc

definition os_remove :: "harness_host \<Rightarrow> string \<Rightarrow> string set \<Rightarrow> harness_exc + string set" where
  "os_remove h f fs =
     (if f \<in> fs
      then (case remove_error h f fs of
              None \<Rightarrow> Inr (fs - {f})
            | Some m \<Rightarrow> Inl (OtherException m))
      else Inl (OtherException (''[Errno 2] No such file or directory: '' @ f)))"

text \<open>The \<open>print\<close> statements at the given lines, in order, up to the first that raises.\<close>

fun prints :: "harness_host \<Rightarrow> nat list \<Rightarrow> harness_exc option" where
  "prints h [] = None"
| "prints h (l # ls) =
     (case print_raises h l of
        Some m \<Rightarrow> Some (OtherException m)
      | None \<Rightarrow> prints h ls)"

definition create_test_audio :: "harness_host \<Rightarrow> string set \<Rightarrow> string option \<times> string set" where
  "create_test_audio h fs =
     (if which_espeak h = 0
      then (let test_file = ''/tmp/test_audio.wav''; fs1 = espeak h fs
            in if test_file \<in> fs1 then (Some test_file, fs1) else (None, fs1))
      else (None, fs))"

text \<open>Lines 45 to 58: the run of \<open>--help\<close> inside its \<open>try\<close>, then the handler.\<close>

definition help_try :: "harness_host \<Rightarrow> flow" where
  "help_try h =
     (case help_run h of
        Inl e \<Rightarrow> Throw e
      | Inr r \<Rightarrow>
          if returncode r = 0
          then (case prints h [51] of None \<Rightarrow> Next | Some e \<Rightarrow> Throw e)
          else (case prints h [53, 54] of None \<Rightarrow> Return False | Some e \<Rightarrow> Throw e))"

definition help_check :: "harness_host \<Rightarrow> flow" where
  "help_check h =
     (case help_try h of
        Throw Interrupted \<Rightarrow> Throw Interrupted
      | Throw e \<Rightarrow> (case prints h [57] of None \<Rightarrow> Return False | Some e1 \<Rightarrow> Throw e1)
      | Return b \<Rightarrow> Return b
      | Next \<Rightarrow> Next)"

text \<open>Lines 33 to 61: everything before the test audio is created.\<close>

definition before_audio :: "harness_host \<Rightarrow> flow" where
  "before_audio h =
     (case prints h [33, 34] of
        Some e \<Rightarrow> Throw e
      | None \<Rightarrow>
          if \<not> script_present h
          then (case prints h [39] of None \<Rightarrow> Return False | Some e \<Rightarrow> Throw e)
          else (case prints h [42] of
                  Some e \<Rightarrow> Throw e
                | None \<Rightarrow>
                    (case help_check h of
                       Next \<Rightarrow> (case prints h [61] of None \<Rightarrow> Next | Some e \<Rightarrow> Throw e)
                     | Return b \<Rightarrow> Return b
                     | Throw e \<Rightarrow> Throw e)))"

text \<open>
  The format \<open>.2f\<close> applied to the value of \<open>duration\<close>: it needs a number, and an
  integer is converted to a float first, which raises \<open>OverflowError\<close> from
  \<open>2 ^ 1024 - 2 ^ 970\<close> on, where rounding to the nearest float leaves the range of the
  floats. The messages of the exceptions are shortened; the harness only prints them.
\<close>

definition format_2f :: "json \<Rightarrow> harness_exc option" where
  "format_2f v =
     (case v of
        JInt n \<Rightarrow>
          if 2 ^ 1024 - 2 ^ 970 \<le> \<bar>n\<bar>
          then Some (OtherException ''int too large to convert to float'')
          else None
      | JFloat x \<Rightarrow> None
      | JNonFinite \<Rightarrow> None
      | JBool b \<Rightarrow> None
      | JNull \<Rightarrow> Some (OtherException ''unsupported format string passed to NoneType.__format__'')
      | JString t \<Rightarrow> Some (OtherException ''Unknown format code f for object of type str'')
      | JArray xs \<Rightarrow> Some (OtherException ''unsupported format string passed to list.__format__'')
      | JObject kvs \<Rightarrow> Some (OtherException ''unsupported format string passed to dict.__format__''))"

text \<open>
  Lines 78 to 82: the five prints of the decoded output. The arguments of a print are
  evaluated before it prints: \<open>output.get\<close> at line 79 needs a dictionary, and line 81
  formats the duration, 0 when the key is missing.
\<close>

definition print_fields :: "harness_host \<Rightarrow> json \<Rightarrow> harness_exc option" where
  "print_fields h output =
     (case prints h [78] of
        Some e \<Rightarrow> Some e
      | None \<Rightarrow>
          (case output of
             JObject items \<Rightarrow>
               (case prints h [79, 80] of
                  Some e \<Rightarrow> Some e
                | None \<Rightarrow>
                    (case format_2f (case map_of items ''duration'' of
                                       None \<Rightarrow> JInt 0 | Some v \<Rightarrow> v) of
                       Some e \<Rightarrow> Some e
                     | None \<Rightarrow> prints h [81, 82]))
           | other \<Rightarrow> Some (OtherException ''object has no attribute get'')))"

text \<open>
  Lines 76 to 90: the inner \<open>try\<close>, whose handler catches the JSON decode error only.
\<close>

definition decode_and_report ::
  "harness_host \<Rightarrow> string \<Rightarrow> completed_process \<Rightarrow> string set \<Rightarrow> flow \<times> string set" where
  "decode_and_report h test_file r fs =
     (case json_loads h (child_stdout r) of
        Inl JSONDecodeError \<Rightarrow>
          (case prints h [88, 89, 90] of None \<Rightarrow> (Next, fs) | Some e \<Rightarrow> (Throw e, fs))
      | Inl e \<Rightarrow> (Throw e, fs)
      | Inr output \<Rightarrow>
          (case print_fields h output of
             Some e \<Rightarrow> (Throw e, fs)
           | None \<Rightarrow>
               (case os_remove h test_file fs of
                  Inl e \<Rightarrow> (Throw e, fs)
                | Inr fs1 \<Rightarrow> (Return True, fs1))))"

text \<open>Lines 69 to 94: the body of the outer \<open>try\<close>.\<close>

definition run_try :: "harness_host \<Rightarrow> string \<Rightarrow> string set \<Rightarrow> flow \<times> string set" where
  "run_try h test_file fs =
     (case prints h [70] of
        Some e \<Rightarrow> (Throw e, fs)
      | None \<Rightarrow>
          (case transcription_run h fs of
             (Inl e, fs1) \<Rightarrow> (Throw e, fs1)
           | (Inr r, fs1) \<Rightarrow>
               if returncode r = 0 then decode_and_report h test_file r fs1
               else (case prints h [92, 93, 94] of
                       None \<Rightarrow> (Next, fs1)
                     | Some e \<Rightarrow> (Throw e, fs1))))"

text \<open>
  Lines 69 to 99: the outer \<open>try\<close> with its two handlers, for the timeout and for any
  other \<open>Exception\<close>. An exception raised by the print of a handler leaves the function.
\<close>

definition run_child :: "harness_host \<Rightarrow> string \<Rightarrow> string set \<Rightarrow> flow \<times> string set" where
  "run_child h test_file fs =
     (case run_try h test_file fs of
        (Throw Interrupted, fs1) \<Rightarrow> (Throw Interrupted, fs1)
      | (Throw TimeoutExpired, fs1) \<Rightarrow>
          (case prints h [97] of None \<Rightarrow> (Next, fs1) | Some e1 \<Rightarrow> (Throw e1, fs1))
      | (Throw e, fs1) \<Rightarrow>
          (case prints h [99] of None \<Rightarrow> (Next, fs1) | Some e1 \<Rightarrow> (Throw e1, fs1))
      | (Return b, fs1) \<Rightarrow> (Return b, fs1)
      | (Next, fs1) \<Rightarrow> (Next, fs1))"

text \<open>Lines 102 and 103: the cleanup, outside every \<open>try\<close>.\<close>

definition cleanup :: "harness_host \<Rightarrow> string \<Rightarrow> string set \<Rightarrow> flow \<times> string set" where
  "cleanup h test_file fs =
     (if test_file \<in> fs
      then (case os_remove h test_file fs of
              Inl e \<Rightarrow> (Throw e, fs)
            | Inr fs1 \<Rightarrow> (Next, fs1))
      else (Next, fs))"

text \<open>Lines 65 to 103: the branch taken when the test file is there.\<close>

definition audio_test :: "harness_host \<Rightarrow> string \<Rightarrow> string set \<Rightarrow> flow \<times> string set" where
  "audio_test h test_file fs =
     (case prints h [65, 66] of
        Some e \<Rightarrow> (Throw e, fs)
      | None \<Rightarrow>
          (case run_child h test_file fs of
             (Next, fs1) \<Rightarrow> cleanup h test_file fs1
           | (Return b, fs1) \<Rightarrow> (Return b, fs1)
           | (Throw e, fs1) \<Rightarrow> (Throw e, fs1)))"

text \<open>Lines 106 to 110: the branch taken when there is no test file.\<close>

definition no_audio :: "harness_host \<Rightarrow> flow" where
  "no_audio h =
     (case prints h [106, 107, 108, 109, 110] of None \<Rightarrow> Next | Some e \<Rightarrow> Throw e)"

text \<open>
  Lines 112 to 129: the requirements check, which prints, tries the import inside a
  \<open>try\<close> that catches the import error only, and returns \<open>False\<close>.
\<close>

definition requirements_check :: "harness_host \<Rightarrow> harness_exc + bool" where
  "requirements_check h =
     (case prints h [112, if python_version_ok h then 117 else 119] of
        Some e \<Rightarrow> Inl e
      | None \<Rightarrow>
          (case (case import_faster_whisper h of
                   None \<Rightarrow> prints h [124]
                 | Some e \<Rightarrow> Some e) of
             None \<Rightarrow> Inr False
           | Some ImportError \<Rightarrow>
               (case prints h [126, 127] of None \<Rightarrow> Inr False | Some e1 \<Rightarrow> Inl e1)
           | Some e \<Rightarrow> Inl e))"

definition test_transcription :: "harness_host \<Rightarrow> string set \<Rightarrow> (harness_exc + bool) \<times> string set" where
  "test_transcription h fs =
     (case before_audio h of
        Return b \<Rightarrow> (Inr b, fs)
      | Throw e \<Rightarrow> (Inl e, fs)
      | Next \<Rightarrow>
          (case create_test_audio h fs of
             (test_file, fs1) \<Rightarrow>
               (case (case test_file of
                        None \<Rightarrow> (no_audio h, fs1)
                      | Some f \<Rightarrow>
                          if f \<in> fs1 then audio_test h f fs1 else (no_audio h, fs1)) of
                  (Next, fs2) \<Rightarrow> (requirements_check h, fs2)
                | (Return b, fs2) \<Rightarrow> (Inr b, fs2)
                | (Throw e, fs2) \<Rightarrow> (Inl e, fs2))))"

section \<open>Derived notions used in the statements\<close>

text \<open>
  The handle a request will decode with: the one the transcriber holds, or the one the
  load call gives when it holds none.
\<close>

definition acquire_handle :: "world \<Rightarrow> transcriber \<Rightarrow> exc + handle" where
  "acquire_handle w self =
     (case model self of
        Some h \<Rightarrow> Inr h
      | None \<Rightarrow> WhisperModel w (model_size self) (device self) (compute_type self) (cpu_threads self))"

text \<open>The \<open>language\<close> entry of a result, as \<open>transcribe_file\<close> computes it.\<close>

definition result_language :: "transcriber \<Rightarrow> transcription_info \<Rightarrow> pyval" where
  "result_language self info =
     (case info_language info of
        Some l \<Rightarrow> PStr l
      | None \<Rightarrow> (case language self of Some l \<Rightarrow> PStr l | None \<Rightarrow> PNone))"

text \<open>The transcriber a request leaves behind, and the calls it makes.\<close>

definition next_transcriber :: "world \<Rightarrow> transcriber \<Rightarrow> string \<Rightarrow> transcriber" where
  "next_transcriber w self audio_path =
     (if files w audio_path = None then self
      else case acquire_handle w self of Inl e \<Rightarrow> self | Inr h \<Rightarrow> self\<lparr>model := Some h\<rparr>)"

definition request_calls :: "world \<Rightarrow> transcriber \<Rightarrow> string \<Rightarrow> lib_event list" where
  "request_calls w self audio_path =
     (if files w audio_path = None then []
      else case model self of
             Some h \<Rightarrow> [Transcribe h audio_path (language self)]
           | None \<Rightarrow>
               (case WhisperModel w (model_size self) (device self) (compute_type self)
                       (cpu_threads self) of
                  Inl e \<Rightarrow> [LoadModel (Inl e)]
                | Inr h \<Rightarrow> [LoadModel (Inr h), Transcribe h audio_path (language self)]))"

text \<open>The transcriber that \<open>main\<close> constructs from the parsed arguments.\<close>

definition cli_transcriber :: "world \<Rightarrow> args \<Rightarrow> transcriber" where
  "cli_transcriber w a =
     FasterWhisperTranscriber w (arg_model a) (arg_device a)
       (if arg_language a \<noteq> ''auto'' then Some (arg_language a) else None) ''int8''"

definition invalid_file_error :: "string \<Rightarrow> pydict" where
  "invalid_file_error path = [(''error'', PStr (''Invalid or missing audio file: '' @ path))]"

definition cancelled_error :: pydict where
  "cancelled_error = [(''error'', PStr ''Transcription cancelled by user'')]"

definition failed_error :: "string \<Rightarrow> pydict" where
  "failed_error m = [(''error'', PStr (''Transcription failed: '' @ m))]"

text \<open>
  What a handler of \<open>main\<close> leaves: status 1, and the error object on standard output
  when its print succeeds.
\<close>

definition report_failure :: "world \<Rightarrow> pydict \<Rightarrow> int \<times> out_line list" where
  "report_failure w d =
     (case print_error w True d of None \<Rightarrow> (1, [JsonLine d]) | Some m \<Rightarrow> (1, []))"

text \<open>
  The outcomes of a parsed command line: the exit status and the lines added to standard
  output.
\<close>

definition cli_outcome :: "world \<Rightarrow> args \<Rightarrow> int \<times> out_line list" where
  "cli_outcome w a =
     (if validate_audio_file (files w) (audio_file a) = Inr False
      then (case print_error w True (invalid_file_error (audio_file a)) of
              None \<Rightarrow> (1, [JsonLine (invalid_file_error (audio_file a))])
            | Some m \<Rightarrow> report_failure w (failed_error m))
      else case fst (transcribe_file w (cli_transcriber w a) (audio_file a) initial_process) of
             Inl KeyboardInterrupt \<Rightarrow> report_failure w cancelled_error
           | Inl (Exception m) \<Rightarrow> report_failure w (failed_error m)
           | Inr result \<Rightarrow>
               (case print_error w False result of
                  None \<Rightarrow> (0, [JsonLine result])
                | Some m \<Rightarrow> report_failure w (failed_error m)))"

text \<open>
  A standard output whose encoding is ASCII: a line printed with \<open>ensure_ascii\<close> is
  always written, a line printed without it only when its strings are ASCII.
\<close>

fun ascii_value :: "pyval \<Rightarrow> bool" where
  "ascii_value (PStr t) = list_all (\<lambda>c. (of_char c :: nat) < 128) t"
| "ascii_value v = True"

definition ascii_stdout :: "bool \<Rightarrow> pydict \<Rightarrow> string option" where
  "ascii_stdout ensure_ascii d =
     (if ensure_ascii \<or> list_all (\<lambda>kv. ascii_value (snd kv)) d then None
      else Some ''ascii codec cannot encode the text: ordinal not in range(128)'')"

section \<open>Concrete inputs\<close>

definition example_world :: world where
  "example_world =
     \<lparr>files = [''a.wav'' \<mapsto> 1572864],
      cpu_count = Some 8,
      faster_whisper_installed = True,
      WhisperModel = (\<lambda>msize dev ctype n. Inr 7),
      model_transcribe =
        (\<lambda>h path lang opts.
           Inr (segments_of ['' Hello'', '' world''], \<lparr>info_language = Some ''en''\<rparr>)),
      load_seconds = 1,
      transcription_seconds = 2,
      print_error = ascii_stdout,
      stderr_error = (\<lambda>d. None)\<rparr>"

text \<open>The same world with one segment whose text is not ASCII.\<close>

definition cafe_world :: world where
  "cafe_world =
     example_world
       \<lparr>model_transcribe :=
          (\<lambda>h path lang opts.
             Inr (segments_of [''caf'' @ [CHR 0xE9]], \<lparr>info_language = Some ''fr''\<rparr>))\<rparr>"

definition example_args :: args where
  "example_args =
     \<lparr>audio_file = ''a.wav'', arg_model = ''tiny'', arg_language = ''auto'',
      arg_device = ''cpu'', verbose = False\<rparr>"

definition example_result :: pydict where
  "example_result =
     [(''text'', PStr ''Hello  world''), (''language'', PStr ''en''),
      (''duration'', PFloat 2), (''segments'', PInt 2),
      (''model_size'', PStr ''tiny''), (''file_size_mb'', PFloat (3 / 2))]"

text \<open>
  A host for the harness on which \<open>espeak\<close> writes the test file and the child process
  runs into its timeout.
\<close>

definition example_host :: harness_host where
  "example_host =
     \<lparr>script_present = True,
      help_run = Inr \<lparr>returncode = 0, child_stdout = ''usage'', child_stderr = []\<rparr>,
      which_espeak = 0,
      espeak = (\<lambda>fs. insert ''/tmp/test_audio.wav'' fs),
      transcription_run = (\<lambda>fs. (Inl TimeoutExpired, fs)),
      json_loads = (\<lambda>t. Inl JSONDecodeError),
      remove_error = (\<lambda>f fs. None),
      print_raises = (\<lambda>l. None),
      python_version_ok = True,
      import_faster_whisper = Some ImportError\<rparr>"

text \<open>What the request returns in the world with the text that is not ASCII.\<close>

definition cafe_result :: pydict where
  "cafe_result =
     [(''text'', PStr (''caf'' @ [CHR 0xE9])), (''language'', PStr ''fr''),
      (''duration'', PFloat 2), (''segments'', PInt 1),
      (''model_size'', PStr ''tiny''), (''file_size_mb'', PFloat (3 / 2))]"

text \<open>
  The same host when \<open>os.remove\<close> refuses the test file, and when the child succeeds
  and \<open>json.loads\<close> gives the output \<open>output\<close>.
\<close>

definition refusing_host :: harness_host where
  "refusing_host =
     example_host\<lparr>remove_error := (\<lambda>f fs. Some ''[Errno 13] Permission denied'')\<rparr>"

definition success_host :: "json \<Rightarrow> harness_host" where
  "success_host output =
     example_host
       \<lparr>transcription_run :=
          (\<lambda>fs. (Inr \<lparr>returncode = 0, child_stdout = ''{}'', child_stderr = []\<rparr>, fs)),
        json_loads := (\<lambda>t. Inr output)\<rparr>"

section \<open>Facts about strings and paths\<close>

lemma rfind_range: "0 \<le> rfind c xs \<Longrightarrow> rfind c xs < int (length xs) \<and> xs ! nat (rfind c xs) = c"
proof (induction xs)
  case Nil
  then show ?case by simp
next
  case (Cons x xs)
  show ?case
  proof (cases "0 \<le> rfind c xs")
    case True
    with Cons.IH have "rfind c xs < int (length xs)" "xs ! nat (rfind c xs) = c" by simp_all
    with True show ?thesis by (simp add: Let_def nat_add_distrib)
  next
    case False
    with Cons.prems show ?thesis by (simp add: Let_def split: if_splits)
  qed
qed

lemma name_suffix_dot: "name_suffix n = c # x \<Longrightarrow> c = CHR ''.''"
proof -
  assume a: "name_suffix n = c # x"
  define i where "i = rfind (CHR ''.'') n"
  from a have pos: "0 < i" "i < int (length n) - 1" and d: "drop (nat i) n = c # x"
    by (auto simp: name_suffix_def Let_def i_def split: if_splits)
  from pos have "0 \<le> rfind (CHR ''.'') n" by (simp add: i_def)
  from rfind_range[OF this] have "n ! nat i = CHR ''.''" by (simp add: i_def)
  moreover from d pos have "n ! nat i = c"
    by (metis Cons_nth_drop_Suc drop_all list.inject list.simps(3) not_le_imp_less)
  ultimately show ?thesis by simp
qed

lemma lower_char_dot: "lower_char (CHR ''.'') = CHR ''.''"
  by (simp add: lower_char_def)

lemma lower_in_valid_extensions:
  "lower (CHR ''.'' # x) \<in> set valid_extensions \<longleftrightarrow> lower x \<in> set allowed_extensions"
  by (auto simp: lower_def lower_char_dot valid_extensions_def allowed_extensions_def)

lemma lower_nil_not_valid: "lower [] \<notin> set valid_extensions"
  by (simp add: lower_def valid_extensions_def)

lemma suffix_valid_iff:
  "lower (path_suffix p) \<in> set valid_extensions \<longleftrightarrow>
     (\<exists>x. file_extension p = Some x \<and> lower x \<in> set allowed_extensions)"
proof (cases "path_suffix p")
  case Nil
  then show ?thesis by (simp add: file_extension_def lower_nil_not_valid)
next
  case (Cons c x)
  then have "c = CHR ''.''" by (simp add: path_suffix_def name_suffix_dot)
  with Cons show ?thesis by (simp add: file_extension_def lower_in_valid_extensions)
qed

lemma validate_audio_file_eq:
  "validate_audio_file fs p =
     Inr (case fs p of None \<Rightarrow> False
          | Some sz \<Rightarrow> 1024 \<le> sz \<and> lower (path_suffix p) \<in> set valid_extensions)"
  by (auto simp: validate_audio_file_def os_path_exists_def os_path_getsize_def split: option.splits)

lemma isspace_space: "isspace (CHR '' '')"
  by (simp add: isspace_def)

lemma rstrip_snoc_space: "rstrip (xs @ '' '') = rstrip xs"
  by (simp add: rstrip_def isspace_space)

lemma strip_snoc_space: "strip (xs @ '' '') = strip xs"
proof (cases "\<forall>c \<in> set xs. isspace c")
  case True
  then have a: "dropWhile isspace xs = []" by simp
  from True have b: "dropWhile isspace (xs @ '' '') = []" by (simp add: isspace_space)
  show ?thesis unfolding strip_def lstrip_def a b by (rule refl)
next
  case False
  then have "dropWhile isspace (xs @ '' '') = dropWhile isspace xs @ '' ''"
    by auto
  then show ?thesis by (simp add: strip_def lstrip_def rstrip_snoc_space)
qed

lemma for_segments_of:
  "for_segments (segments_of ts) acc k = Inr (acc @ concat (map (\<lambda>t. t @ '' '') ts), k + length ts)"
  by (induction ts arbitrary: acc k) simp_all

lemma concat_spaced: "ts \<noteq> [] \<Longrightarrow> concat (map (\<lambda>t. t @ '' '') ts) = join_with_space ts @ '' ''"
  by (induction ts rule: join_with_space.induct) simp_all

lemma strip_concat_spaced: "strip (concat (map (\<lambda>t. t @ '' '') ts)) = strip (join_with_space ts)"
proof (cases ts)
  case Nil
  then show ?thesis by simp
next
  case (Cons t us)
  then have "ts \<noteq> []" by simp
  then show ?thesis by (simp add: concat_spaced strip_snoc_space)
qed

lemma strip_nil: "strip [] = []"
  by (simp add: strip_def lstrip_def rstrip_def)

section \<open>Facts about one request to the transcriber\<close>

lemma transcribe_file_success:
  assumes "files w audio_path = Some sz"
    and "acquire_handle w self = Inr h"
    and "model_transcribe w h audio_path (language self) fixed_options = Inr (segs, info)"
    and "for_segments segs [] 0 = Inr (full_text, n)"
  shows "fst (transcribe_file w self audio_path p) =
           Inr [(''text'', PStr (strip full_text)),
                (''language'', result_language self info),
                (''duration'', PFloat (transcription_seconds w)),
                (''segments'', PInt (int n)),
                (''model_size'', PStr (model_size self)),
                (''file_size_mb'', PFloat (round2 (of_nat sz / (1024 * 1024))))]"
  using assms
  by (auto simp: transcribe_file_def transcribe_try_def load_model_def acquire_handle_def
        result_language_def os_path_exists_def os_path_getsize_def Let_def
      split: option.splits sum.splits prod.splits)

lemma transcribe_file_Inr:
  assumes "fst (transcribe_file w self audio_path p) = Inr result"
  shows "\<exists>sz h segs info full_text n.
           files w audio_path = Some sz \<and> acquire_handle w self = Inr h \<and>
           model_transcribe w h audio_path (language self) fixed_options = Inr (segs, info) \<and>
           for_segments segs [] 0 = Inr (full_text, n)"
  using assms
  by (auto simp: transcribe_file_def transcribe_try_def load_model_def acquire_handle_def
        os_path_exists_def os_path_getsize_def Let_def
      split: option.splits sum.splits prod.splits if_splits)

lemma logger_log_fields:
  "stdout (logger_log lvl msg p) = stdout p"
  "library_calls (logger_log lvl msg p) = library_calls p"
  by (simp_all add: logger_log_def)

lemma logger_info_fields:
  "stdout (logger_info msg p) = stdout p"
  "library_calls (logger_info msg p) = library_calls p"
  by (simp_all add: logger_info_def logger_log_fields)

lemma log_and_reraise_fields:
  "stdout (log_and_reraise mk e p) = stdout p"
  "library_calls (log_and_reraise mk e p) = library_calls p"
  by (simp_all add: log_and_reraise_def logger_error_def logger_log_fields split: exc.splits)

lemma called_fields:
  "stdout (called ev p) = stdout p"
  "library_calls (called ev p) = library_calls p @ [ev]"
  by (simp_all add: called_def)

lemma print_json_fields:
  "fst (print_json w ensure_ascii d p) = print_error w ensure_ascii d"
  "stdout (snd (print_json w ensure_ascii d p)) =
     stdout p @ (case print_error w ensure_ascii d of None \<Rightarrow> [JsonLine d] | Some m \<Rightarrow> [])"
  "library_calls (snd (print_json w ensure_ascii d p)) = library_calls p"
  by (simp_all add: print_json_def split: option.splits)

lemma uncaught_fields:
  "fst (uncaught m p) = 1"
  "stdout (snd (uncaught m p)) = stdout p"
  "library_calls (snd (uncaught m p)) = library_calls p"
  by (simp_all add: uncaught_def)

lemmas process_fields =
  logger_info_fields log_and_reraise_fields called_fields

lemma load_model_result:
  "fst (load_model w self p) =
     (case WhisperModel w (model_size self) (device self) (compute_type self) (cpu_threads self) of
        Inl e \<Rightarrow> Inl e | Inr h \<Rightarrow> Inr ())"
  "fst (snd (load_model w self p)) =
     (case WhisperModel w (model_size self) (device self) (compute_type self) (cpu_threads self) of
        Inl e \<Rightarrow> self | Inr h \<Rightarrow> self\<lparr>model := Some h\<rparr>)"
  "stdout (snd (snd (load_model w self p))) = stdout p"
  "library_calls (snd (snd (load_model w self p))) =
     library_calls p @
       [LoadModel (WhisperModel w (model_size self) (device self) (compute_type self)
                     (cpu_threads self))]"
  by (simp_all add: load_model_def Let_def process_fields split: sum.splits)

lemma transcribe_try_stdout:
  "stdout (snd (transcribe_try w self audio_path p)) = stdout p"
  by (simp add: transcribe_try_def Let_def process_fields
      split: option.splits sum.splits prod.splits)

lemma transcribe_try_result:
  "fst (transcribe_try w self audio_path p) = fst (transcribe_try w self audio_path q)"
  by (simp add: transcribe_try_def Let_def split: option.splits sum.splits prod.splits)

lemma transcribe_try_calls:
  "library_calls (snd (transcribe_try w self audio_path p)) =
     library_calls p @
       (case model self of None \<Rightarrow> [] | Some h \<Rightarrow> [Transcribe h audio_path (language self)])"
  by (simp add: transcribe_try_def Let_def process_fields
      split: option.splits sum.splits prod.splits)

lemma transcribe_file_transcriber:
  "fst (snd (transcribe_file w self audio_path p)) = next_transcriber w self audio_path"
  by (cases "load_model w self p"; cases "model self")
     (use load_model_result(1,2)[of w self p] in
      \<open>auto simp: transcribe_file_def next_transcriber_def acquire_handle_def os_path_exists_def
         split: sum.splits prod.splits\<close>)

lemma transcribe_file_calls:
  "library_calls (snd (snd (transcribe_file w self audio_path p))) =
     library_calls p @ request_calls w self audio_path"
proof (cases "files w audio_path")
  case None
  then show ?thesis by (simp add: transcribe_file_def request_calls_def os_path_exists_def)
next
  case (Some sz)
  show ?thesis
  proof (cases "model self")
    case None
    obtain r s q where lm: "load_model w self p = (r, s, q)" by (cases "load_model w self p")
    from lm load_model_result[of w self p]
    show ?thesis using Some None
      by (cases "transcribe_try w s audio_path q"; cases r)
         (use transcribe_try_calls[of w s audio_path q] in
          \<open>auto simp: transcribe_file_def request_calls_def os_path_exists_def process_fields
             split: sum.splits\<close>)
  next
    case (Some h)
    with \<open>files w audio_path = Some sz\<close> show ?thesis
      by (cases "transcribe_try w self audio_path p")
         (use transcribe_try_calls[of w self audio_path p] in
          \<open>auto simp: transcribe_file_def request_calls_def os_path_exists_def process_fields
             split: sum.splits\<close>)
  qed
qed

lemma transcribe_file_stdout:
  "stdout (snd (snd (transcribe_file w self audio_path p))) = stdout p"
proof (cases "model self = None")
  case True
  obtain r s q where lm: "load_model w self p = (r, s, q)" by (cases "load_model w self p")
  from lm load_model_result(3)[of w self p] have "stdout q = stdout p" by simp
  with lm True show ?thesis
    by (cases "transcribe_try w s audio_path q"; cases r)
       (use transcribe_try_stdout[of w s audio_path q] in
        \<open>auto simp: transcribe_file_def process_fields split: sum.splits\<close>)
next
  case False
  then show ?thesis
    by (cases "transcribe_try w self audio_path p")
       (use transcribe_try_stdout[of w self audio_path p] in
        \<open>auto simp: transcribe_file_def process_fields split: sum.splits\<close>)
qed

lemma transcribe_file_result:
  "fst (transcribe_file w self audio_path p) = fst (transcribe_file w self audio_path q)"
proof (cases "model self = None")
  case True
  obtain r s p1 where lp: "load_model w self p = (r, s, p1)" by (cases "load_model w self p")
  obtain r' s' q1 where lq: "load_model w self q = (r', s', q1)" by (cases "load_model w self q")
  from lp lq load_model_result(1,2)[of w self p] load_model_result(1,2)[of w self q]
  have eq: "r' = r" "s' = s" by simp_all
  show ?thesis using True lp lq eq transcribe_try_result[of w s audio_path p1 q1]
    by (cases "transcribe_try w s audio_path p1"; cases "transcribe_try w s audio_path q1"; cases r)
       (auto simp: transcribe_file_def split: sum.splits)
next
  case False
  then show ?thesis using transcribe_try_result[of w self audio_path p q]
    by (cases "transcribe_try w self audio_path p"; cases "transcribe_try w self audio_path q")
       (auto simp: transcribe_file_def split: sum.splits)
qed

lemma request_calls_discipline:
  "lazy_discipline (model self) (request_calls w self audio_path)"
  by (auto simp: request_calls_def split: option.splits sum.splits)

lemma request_calls_handle:
  "handle_after (model self) (request_calls w self audio_path) =
     model (next_transcriber w self audio_path)"
  by (auto simp: request_calls_def next_transcriber_def acquire_handle_def
      split: option.splits sum.splits)

lemma handle_after_append:
  "handle_after m (xs @ ys) = handle_after (handle_after m xs) ys"
  by (induction m xs rule: handle_after.induct) simp_all

lemma lazy_discipline_append:
  "lazy_discipline m xs \<Longrightarrow>
     lazy_discipline m (xs @ ys) = lazy_discipline (handle_after m xs) ys"
  by (induction m xs rule: lazy_discipline.induct) (auto split: sum.splits)

lemma lazy_discipline_loads:
  "lazy_discipline m es \<Longrightarrow>
     length (filter load_succeeded es) \<le> (if m = None then 1 else 0)"
proof (induction m es rule: lazy_discipline.induct)
  case (2 m r es)
  then show ?case by (cases r) (auto split: if_splits)
qed auto

lemma transcribe_calls_trace:
  "\<exists>es. library_calls (snd (transcribe_calls cs self p)) = library_calls p @ es \<and>
        lazy_discipline (model self) es \<and>
        handle_after (model self) es = model (fst (transcribe_calls cs self p))"
proof (induction cs arbitrary: self p)
  case Nil
  then show ?case by simp
next
  case (Cons c cs)
  obtain w audio_path where c: "c = (w, audio_path)" by (cases c)
  obtain r self1 p1 where tf: "transcribe_file w self audio_path p = (r, self1, p1)"
    by (cases "transcribe_file w self audio_path p")
  define es1 where "es1 = request_calls w self audio_path"
  from tf transcribe_file_calls[of w self audio_path p]
  have p1: "library_calls p1 = library_calls p @ es1" by (simp add: es1_def)
  from tf transcribe_file_transcriber[of w self audio_path p]
  have s1: "self1 = next_transcriber w self audio_path" by simp
  have d1: "lazy_discipline (model self) es1"
    by (simp add: es1_def request_calls_discipline)
  have h1: "handle_after (model self) es1 = model self1"
    by (simp add: es1_def s1 request_calls_handle)
  from Cons.IH[of self1 p1] obtain es2 where
    e2: "library_calls (snd (transcribe_calls cs self1 p1)) = library_calls p1 @ es2"
    and d2: "lazy_discipline (model self1) es2"
    and h2: "handle_after (model self1) es2 = model (fst (transcribe_calls cs self1 p1))"
    by blast
  have "library_calls (snd (transcribe_calls (c # cs) self p)) = library_calls p @ (es1 @ es2)"
    using c tf e2 p1 by simp
  moreover have "lazy_discipline (model self) (es1 @ es2)"
    using d1 d2 h1 by (simp add: lazy_discipline_append)
  moreover have "handle_after (model self) (es1 @ es2) =
                   model (fst (transcribe_calls (c # cs) self p))"
    using c tf h1 h2 by (simp add: handle_after_append)
  ultimately show ?case by blast
qed

section \<open>Facts about the command line\<close>

lemma validate_audio_file_bool:
  "validate_audio_file fs p = Inr False \<or> validate_audio_file fs p = Inr True"
  by (simp add: validate_audio_file_eq)

text \<open>A handler of \<open>main\<close>: the print of the error object, then \<open>sys.exit(1)\<close>.\<close>

lemma handler_outcome:
  "fst (case print_json w True d p of (None, p2) \<Rightarrow> (1, p2) | (Some m2, p2) \<Rightarrow> uncaught m2 p2) =
     fst (report_failure w d)"
  "stdout (snd (case print_json w True d p of
                  (None, p2) \<Rightarrow> (1, p2) | (Some m2, p2) \<Rightarrow> uncaught m2 p2)) =
     stdout p @ snd (report_failure w d)"
  "library_calls (snd (case print_json w True d p of
                         (None, p2) \<Rightarrow> (1, p2) | (Some m2, p2) \<Rightarrow> uncaught m2 p2)) =
     library_calls p"
  by (simp_all add: print_json_def report_failure_def uncaught_def split: option.splits)

lemma main_handlers:
  "main w (Namespace a) p =
     (case main_try w a (if verbose a then p\<lparr>root_level := INFO\<rparr> else p) of
        (Returned, p1) \<Rightarrow> (0, p1)
      | (SysExit status, p1) \<Rightarrow> (status, p1)
      | (Raised KeyboardInterrupt, p1) \<Rightarrow>
          (case print_json w True cancelled_error p1 of
             (None, p2) \<Rightarrow> (1, p2) | (Some m2, p2) \<Rightarrow> uncaught m2 p2)
      | (Raised (Exception m), p1) \<Rightarrow>
          (case print_json w True (failed_error m) p1 of
             (None, p2) \<Rightarrow> (1, p2) | (Some m2, p2) \<Rightarrow> uncaught m2 p2))"
  unfolding main_def cancelled_error_def failed_error_def Let_def by simp

lemma main_try_invalid:
  assumes "validate_audio_file (files w) (audio_file a) = Inr False"
  shows "main_try w a p =
           (case print_json w True (invalid_file_error (audio_file a)) p of
              (Some m, p1) \<Rightarrow> (Raised (Exception m), p1)
            | (None, p1) \<Rightarrow> (SysExit 1, p1))"
  using assms unfolding main_try_def invalid_file_error_def by simp

lemma main_try_valid:
  assumes "validate_audio_file (files w) (audio_file a) = Inr True"
  shows "main_try w a p =
           (case transcribe_file w (cli_transcriber w a) (audio_file a) p of
              (Inl e, self1, p1) \<Rightarrow> (Raised e, p1)
            | (Inr result, self1, p1) \<Rightarrow>
                (case print_json w False result p1 of
                   (Some m, p2) \<Rightarrow> (Raised (Exception m), p2)
                 | (None, p2) \<Rightarrow> (Returned, p2)))"
  using assms unfolding main_try_def cli_transcriber_def Let_def by simp

text \<open>
  The three observations of a run of \<open>main\<close> on parsed arguments: the status, what is
  added to standard output, and the calls made to the library.
\<close>

lemma main_namespace_all:
  "fst (main w (Namespace a) p) = fst (cli_outcome w a) \<and>
   stdout (snd (main w (Namespace a) p)) = stdout p @ snd (cli_outcome w a) \<and>
   library_calls (snd (main w (Namespace a) p)) =
     library_calls p @
       (if validate_audio_file (files w) (audio_file a) = Inr False then []
        else request_calls w (cli_transcriber w a) (audio_file a))"
proof -
  define p0 where "p0 = (if verbose a then p\<lparr>root_level := INFO\<rparr> else p)"
  have sp0: "stdout p0 = stdout p" "library_calls p0 = library_calls p"
    by (simp_all add: p0_def)
  note m = main_handlers[of w a p, folded p0_def]
  show ?thesis
  proof (cases "validate_audio_file (files w) (audio_file a) = Inr False")
    case True
    show ?thesis
    proof (cases "print_error w True (invalid_file_error (audio_file a))")
      case None
      then have "main_try w a p0 =
                   (SysExit 1, p0\<lparr>stdout := stdout p0 @
                                  [JsonLine (invalid_file_error (audio_file a))]\<rparr>)"
        by (simp add: main_try_invalid[OF True] print_json_def)
      with True None show ?thesis by (simp add: m cli_outcome_def sp0)
    next
      case (Some e)
      then have "main_try w a p0 = (Raised (Exception e), p0)"
        by (simp add: main_try_invalid[OF True] print_json_def)
      with True Some show ?thesis by (simp add: m cli_outcome_def handler_outcome sp0)
    qed
  next
    case False
    with validate_audio_file_bool[of "files w" "audio_file a"]
    have v: "validate_audio_file (files w) (audio_file a) = Inr True" by simp
    obtain r s q where tf: "transcribe_file w (cli_transcriber w a) (audio_file a) p0 = (r, s, q)"
      by (cases "transcribe_file w (cli_transcriber w a) (audio_file a) p0")
    from tf transcribe_file_stdout[of w "cli_transcriber w a" "audio_file a" p0]
    have sq: "stdout q = stdout p" by (simp add: sp0)
    from tf transcribe_file_calls[of w "cli_transcriber w a" "audio_file a" p0]
    have cq: "library_calls q =
                library_calls p @ request_calls w (cli_transcriber w a) (audio_file a)"
      by (simp add: sp0)
    from tf transcribe_file_result[of w "cli_transcriber w a" "audio_file a" p0 initial_process]
    have r: "fst (transcribe_file w (cli_transcriber w a) (audio_file a) initial_process) = r"
      by simp
    show ?thesis
    proof (cases r)
      case (Inl e)
      then have "main_try w a p0 = (Raised e, q)" by (simp add: main_try_valid[OF v] tf)
      with False Inl show ?thesis
        by (cases e) (simp_all add: m cli_outcome_def r handler_outcome sq cq)
    next
      case (Inr result)
      show ?thesis
      proof (cases "print_error w False result")
        case None
        with Inr have "main_try w a p0 = (Returned, q\<lparr>stdout := stdout q @ [JsonLine result]\<rparr>)"
          by (simp add: main_try_valid[OF v] tf print_json_def)
        with False Inr None show ?thesis by (simp add: m cli_outcome_def r sq cq)
      next
        case (Some e)
        with Inr have "main_try w a p0 = (Raised (Exception e), q)"
          by (simp add: main_try_valid[OF v] tf print_json_def)
        with False Inr Some show ?thesis
          by (simp add: m cli_outcome_def r handler_outcome sq cq)
      qed
    qed
  qed
qed

lemma main_namespace:
  "fst (main w (Namespace a) p) = fst (cli_outcome w a)"
  "stdout (snd (main w (Namespace a) p)) = stdout p @ snd (cli_outcome w a)"
  using main_namespace_all[of w a p] by simp_all

lemma main_namespace_calls:
  "library_calls (snd (main w (Namespace a) p)) =
     library_calls p @
       (if validate_audio_file (files w) (audio_file a) = Inr False then []
        else request_calls w (cli_transcriber w a) (audio_file a))"
  using main_namespace_all[of w a p] by simp

lemma request_calls_language:
  "Transcribe h path l \<in> set (request_calls w self audio_path) \<Longrightarrow>
     l = language self \<and> path = audio_path"
  by (auto simp: request_calls_def split: option.splits sum.splits if_splits)

lemma example_valid: "validate_audio_file (files example_world) ''a.wav'' = Inr True"
  by (simp add: validate_audio_file_eq example_world_def path_suffix_def path_name_def
        path_parts_def name_suffix_def lower_def lower_char_def valid_extensions_def Let_def)

lemma example_strip: "strip '' Hello  world '' = ''Hello  world''"
  by (simp add: strip_def lstrip_def rstrip_def isspace_def)

lemma example_round: "round2 (of_nat 1572864 / (1024 * 1024)) = 3 / 2"
  by (simp add: round2_def round_half_even_def Let_def)

lemma example_transcribe:
  "fst (transcribe_file example_world (cli_transcriber example_world example_args)
          ''a.wav'' p) = Inr example_result"
proof -
  have "fst (transcribe_file example_world (cli_transcriber example_world example_args)
          ''a.wav'' p) =
        Inr [(''text'', PStr (strip '' Hello  world '')),
             (''language'', result_language (cli_transcriber example_world example_args)
                              \<lparr>info_language = Some ''en''\<rparr>),
             (''duration'', PFloat (transcription_seconds example_world)),
             (''segments'', PInt (int 2)),
             (''model_size'', PStr (model_size (cli_transcriber example_world example_args))),
             (''file_size_mb'', PFloat (round2 (of_nat 1572864 / (1024 * 1024))))]"
    by (rule transcribe_file_success[where h = 7 and segs = "segments_of ['' Hello'', '' world'']"])
       (simp_all add: example_world_def acquire_handle_def cli_transcriber_def
          FasterWhisperTranscriber_def)
  then show ?thesis
    by (simp only: example_strip example_round)
       (simp add: example_result_def result_language_def example_world_def cli_transcriber_def
          FasterWhisperTranscriber_def example_args_def)
qed

lemma example_print: "print_error example_world False example_result = None"
  by (simp add: example_world_def ascii_stdout_def example_result_def)

lemma example_outcome:
  "cli_outcome example_world example_args = (0, [JsonLine example_result])"
  using example_valid example_transcribe[of initial_process] example_print
  by (simp add: cli_outcome_def example_args_def)

lemma example_calls:
  "library_calls (snd (script example_world (Namespace example_args))) =
     [LoadModel (Inr 7), Transcribe 7 ''a.wav'' None]"
proof -
  have i: "faster_whisper_installed example_world" by (simp add: example_world_def)
  have v: "validate_audio_file (files example_world) (audio_file example_args) \<noteq> Inr False"
    using example_valid by (simp add: example_args_def)
  show ?thesis using i v
    by (simp add: script_def main_namespace_calls initial_process_def request_calls_def
          cli_transcriber_def FasterWhisperTranscriber_def normalize_language_def
          example_args_def)
       (simp add: example_world_def)
qed

text \<open>
  A result that standard output cannot encode: the print inside the \<open>try\<close> raises, and
  the handler prints the failure with status 1.
\<close>

lemma cafe_valid: "validate_audio_file (files cafe_world) ''a.wav'' = Inr True"
  using example_valid by (simp add: cafe_world_def)

lemma cafe_strip: "strip (''caf'' @ [CHR 0xE9] @ '' '') = ''caf'' @ [CHR 0xE9]"
  by (simp add: strip_def lstrip_def rstrip_def isspace_def)

lemma cafe_transcribe:
  "fst (transcribe_file cafe_world (cli_transcriber cafe_world example_args) ''a.wav'' p) =
     Inr cafe_result"
proof -
  have "fst (transcribe_file cafe_world (cli_transcriber cafe_world example_args) ''a.wav'' p) =
        Inr [(''text'', PStr (strip (''caf'' @ [CHR 0xE9] @ '' ''))),
             (''language'', result_language (cli_transcriber cafe_world example_args)
                              \<lparr>info_language = Some ''fr''\<rparr>),
             (''duration'', PFloat (transcription_seconds cafe_world)),
             (''segments'', PInt (int 1)),
             (''model_size'', PStr (model_size (cli_transcriber cafe_world example_args))),
             (''file_size_mb'', PFloat (round2 (of_nat 1572864 / (1024 * 1024))))]"
    by (rule transcribe_file_success[where h = 7 and segs = "segments_of [''caf'' @ [CHR 0xE9]]"])
       (simp_all add: cafe_world_def example_world_def acquire_handle_def cli_transcriber_def
          FasterWhisperTranscriber_def)
  then show ?thesis
    by (simp only: cafe_strip example_round)
       (simp add: cafe_result_def result_language_def cafe_world_def example_world_def
          cli_transcriber_def FasterWhisperTranscriber_def example_args_def)
qed

lemma cafe_print:
  "print_error cafe_world False cafe_result =
     Some ''ascii codec cannot encode the text: ordinal not in range(128)''"
  by (simp add: cafe_world_def example_world_def ascii_stdout_def cafe_result_def)

lemma cafe_run:
  "fst (script cafe_world (Namespace example_args)) = 1 \<and>
   stdout (snd (script cafe_world (Namespace example_args))) =
     [JsonLine [(''error'', PStr (''Transcription failed: '' @
        ''ascii codec cannot encode the text: ordinal not in range(128)''))]]"
proof -
  have i: "faster_whisper_installed cafe_world" by (simp add: cafe_world_def example_world_def)
  have pe: "print_error cafe_world True d = None" for d
    by (simp add: cafe_world_def example_world_def ascii_stdout_def)
  have "cli_outcome cafe_world example_args =
          (1, [JsonLine (failed_error
                 ''ascii codec cannot encode the text: ordinal not in range(128)'')])"
    using cafe_valid cafe_transcribe[of initial_process] cafe_print
    by (simp add: cli_outcome_def example_args_def report_failure_def pe)
  then show ?thesis using i
    by (simp add: script_def main_namespace initial_process_def failed_error_def)
qed

section \<open>Facts about the harness\<close>

lemma create_test_audio_Some:
  "create_test_audio h fs = (Some f, fs1) \<Longrightarrow> f \<in> fs1"
  by (auto simp: create_test_audio_def Let_def split: if_splits)

lemma os_remove_Inr: "os_remove h f fs = Inr fs1 \<Longrightarrow> f \<notin> fs1"
  by (auto simp: os_remove_def split: if_splits option.splits)

lemma decode_and_report_Return:
  "decode_and_report h f r fs = (Return b, fs1) \<Longrightarrow> f \<notin> fs1"
  by (auto simp: decode_and_report_def dest: os_remove_Inr
      split: sum.splits harness_exc.splits option.splits)

lemma run_try_Return: "run_try h f fs = (Return b, fs1) \<Longrightarrow> f \<notin> fs1"
  by (auto simp: run_try_def dest: decode_and_report_Return
      split: option.splits prod.splits sum.splits if_splits)

lemma run_child_Return: "run_child h f fs = (Return b, fs1) \<Longrightarrow> f \<notin> fs1"
  by (auto simp: run_child_def dest: run_try_Return
      split: prod.splits flow.splits harness_exc.splits option.splits)

lemma cleanup_Next: "cleanup h f fs = (Next, fs1) \<Longrightarrow> f \<notin> fs1"
  by (auto simp: cleanup_def dest: os_remove_Inr split: if_splits sum.splits)

lemma cleanup_no_Return: "cleanup h f fs \<noteq> (Return b, fs1)"
  by (auto simp: cleanup_def split: if_splits sum.splits)

lemma audio_test_Return: "audio_test h f fs = (Return b, fs1) \<Longrightarrow> f \<notin> fs1"
  by (auto simp: audio_test_def cleanup_no_Return dest: run_child_Return
      split: option.splits prod.splits flow.splits)

lemma audio_test_Next: "audio_test h f fs = (Next, fs1) \<Longrightarrow> f \<notin> fs1"
  by (auto simp: audio_test_def dest: cleanup_Next
      split: option.splits prod.splits flow.splits)

lemma test_transcription_created:
  assumes "before_audio h = Next" and "create_test_audio h fs = (Some f, fs1)"
  shows "test_transcription h fs =
           (case audio_test h f fs1 of
              (Next, fs2) \<Rightarrow> (requirements_check h, fs2)
            | (Return b, fs2) \<Rightarrow> (Inr b, fs2)
            | (Throw e, fs2) \<Rightarrow> (Inl e, fs2))"
proof -
  from create_test_audio_Some[OF assms(2)] have "f \<in> fs1" .
  with assms show ?thesis by (simp add: test_transcription_def)
qed

text \<open>When nothing refuses: no print raises, the removal is permitted.\<close>

lemma prints_None: "\<forall>l. print_raises h l = None \<Longrightarrow> prints h ls = None"
  by (induction ls) simp_all

lemma os_remove_permitted:
  "\<forall>fs'. remove_error h f fs' = None \<Longrightarrow> f \<in> fs \<Longrightarrow> os_remove h f fs = Inr (fs - {f})"
  by (simp add: os_remove_def)

lemma cleanup_permitted:
  "\<forall>fs'. remove_error h f fs' = None \<Longrightarrow> fst (cleanup h f fs) = Next"
  by (simp add: cleanup_def os_remove_def)

lemma format_2f_exc: "format_2f v = Some e \<Longrightarrow> e \<noteq> Interrupted"
  by (auto simp: format_2f_def split: json.splits if_splits)

lemma print_fields_exc:
  "\<forall>l. print_raises h l = None \<Longrightarrow> print_fields h output = Some e \<Longrightarrow> e \<noteq> Interrupted"
  by (auto simp: print_fields_def prints_None dest: format_2f_exc
      split: option.splits json.splits)

lemma os_remove_exc: "os_remove h f fs = Inl e \<Longrightarrow> e \<noteq> Interrupted"
  by (auto simp: os_remove_def split: if_splits option.splits)

lemma decode_and_report_quiet:
  assumes "\<forall>l. print_raises h l = None" and "\<forall>t. json_loads h t \<noteq> Inl Interrupted"
  shows "fst (decode_and_report h f r fs) \<noteq> Throw Interrupted"
  using assms
  by (auto simp: decode_and_report_def prints_None dest: print_fields_exc os_remove_exc
      split: sum.splits harness_exc.splits option.splits)

lemma run_try_quiet:
  assumes "\<forall>l. print_raises h l = None" and "\<forall>t. json_loads h t \<noteq> Inl Interrupted"
    and "fst (transcription_run h fs) \<noteq> Inl Interrupted"
  shows "fst (run_try h f fs) \<noteq> Throw Interrupted"
  using assms decode_and_report_quiet[OF assms(1,2)]
  by (auto simp: run_try_def prints_None split: prod.splits sum.splits)

lemma run_child_quiet:
  assumes "\<forall>l. print_raises h l = None" and "\<forall>t. json_loads h t \<noteq> Inl Interrupted"
    and "fst (transcription_run h fs) \<noteq> Inl Interrupted"
  shows "\<exists>fl. fst (run_child h f fs) = fl \<and> (fl = Next \<or> (\<exists>b. fl = Return b))"
  using run_try_quiet[OF assms, of f] assms(1)
  by (cases "run_try h f fs")
     (auto simp: run_child_def prints_None split: flow.splits harness_exc.splits)

lemma audio_test_quiet:
  assumes "\<forall>l. print_raises h l = None" and "\<forall>t. json_loads h t \<noteq> Inl Interrupted"
    and "fst (transcription_run h fs) \<noteq> Inl Interrupted"
    and "\<forall>fs'. remove_error h f fs' = None"
  shows "fst (audio_test h f fs) = Next \<or> (\<exists>b. fst (audio_test h f fs) = Return b)"
proof -
  obtain fl fs1 where rc: "run_child h f fs = (fl, fs1)" by (cases "run_child h f fs")
  from run_child_quiet[OF assms(1-3), of f] rc have "fl = Next \<or> (\<exists>b. fl = Return b)" by simp
  then show ?thesis
    using rc assms(1) cleanup_permitted[OF assms(4), of fs1]
    by (auto simp: audio_test_def prints_None)
qed

lemma requirements_check_quiet:
  assumes "\<forall>l. print_raises h l = None"
    and "import_faster_whisper h = None \<or> import_faster_whisper h = Some ImportError"
  shows "requirements_check h = Inr False"
  using assms by (auto simp: requirements_check_def prints_None)

lemma example_before: "before_audio example_host = Next"
  by (simp add: before_audio_def help_check_def help_try_def example_host_def)

lemma example_created:
  "create_test_audio example_host {} =
     (Some ''/tmp/test_audio.wav'', {''/tmp/test_audio.wav''})"
  by (simp add: create_test_audio_def example_host_def Let_def)

lemma example_harness_run: "test_transcription example_host {} = (Inr False, {})"
  by (simp add: test_transcription_created[OF example_before example_created])
     (simp add: audio_test_def run_child_def run_try_def cleanup_def os_remove_def
        requirements_check_def example_host_def)

lemma refusing_before: "before_audio refusing_host = Next"
  by (simp add: before_audio_def help_check_def help_try_def refusing_host_def example_host_def)

lemma refusing_created:
  "create_test_audio refusing_host {} =
     (Some ''/tmp/test_audio.wav'', {''/tmp/test_audio.wav''})"
  by (simp add: create_test_audio_def refusing_host_def example_host_def Let_def)

lemma refused_removal:
  "test_transcription refusing_host {} =
     (Inl (OtherException ''[Errno 13] Permission denied''), {''/tmp/test_audio.wav''})"
  by (simp add: test_transcription_created[OF refusing_before refusing_created])
     (simp add: audio_test_def run_child_def run_try_def cleanup_def os_remove_def
        refusing_host_def example_host_def)

lemma success_before: "before_audio (success_host output) = Next"
  by (simp add: before_audio_def help_check_def help_try_def success_host_def example_host_def)

lemma success_created:
  "create_test_audio (success_host output) {} =
     (Some ''/tmp/test_audio.wav'', {''/tmp/test_audio.wav''})"
  by (simp add: create_test_audio_def success_host_def example_host_def Let_def)

lemma success_run:
  "test_transcription (success_host (JObject [(''duration'', JFloat 2)])) {} = (Inr True, {})"
  by (simp add: test_transcription_created[OF success_before success_created])
     (simp add: audio_test_def run_child_def run_try_def decode_and_report_def print_fields_def
        format_2f_def os_remove_def success_host_def example_host_def)

lemma overflow_run:
  "test_transcription (success_host (JObject [(''duration'', JInt (2 ^ 1024))])) {} =
     (Inr False, {})"
  by (simp add: test_transcription_created[OF success_before success_created])
     (simp add: audio_test_def run_child_def run_try_def decode_and_report_def print_fields_def
        format_2f_def cleanup_def os_remove_def requirements_check_def success_host_def
        example_host_def)

section \<open>The claims\<close>

subsection \<open>C1: the outcomes of the command line\<close>




subsection \<open>C2: what the validator accepts\<close>

text \<open>
  C2: \<open>validate_audio_file\<close> returns true exactly when the path exists, the size there
  is at least 1024 bytes, and the extension, lowered, is one of mp3, wav, m4a, ogg,
  flac, aac. It therefore returns false for a path that does not exist, for a size
  under 1024 whatever the extension, and for an extension outside the list. The
  extension is the suffix \<open>pathlib\<close> gives the path, without its dot.
\<close>

theorem validate_iff:
  "validate_audio_file fs p =
     Inr (os_path_exists fs p \<and> (\<exists>sz. fs p = Some sz \<and> 1024 \<le> sz) \<and>
          (\<exists>x. file_extension p = Some x \<and> lower x \<in> set allowed_extensions))"
  unfolding validate_audio_file_eq suffix_valid_iff
  by (auto simp: os_path_exists_def split: option.splits)

subsection \<open>C3: the shape of the result\<close>

text \<open>
  C3 as stated names the keys \<open>duration_seconds\<close> and \<open>segment_count\<close>. The dictionary
  that \<open>transcribe_file\<close> builds and \<open>main\<close> prints has the keys \<open>duration\<close> and
  \<open>segments\<close> (the harness reads \<open>duration\<close> too). On the concrete run:
\<close>

theorem result_keys_counterexample:
  "stdout (snd (script example_world (Namespace example_args))) = [JsonLine example_result] \<and>
   map fst example_result =
     [''text'', ''language'', ''duration'', ''segments'', ''model_size'', ''file_size_mb''] \<and>
   map_of example_result ''duration_seconds'' = None \<and>
   map_of example_result ''segment_count'' = None"
proof -
  have "faster_whisper_installed example_world" by (simp add: example_world_def)
  then have "script example_world (Namespace example_args) =
               main example_world (Namespace example_args) initial_process"
    by (simp add: script_def)
  then have "stdout (snd (script example_world (Namespace example_args))) =
               [JsonLine example_result]"
    by (simp add: main_namespace example_outcome initial_process_def)
  then show ?thesis by (simp add: example_result_def)
qed

text \<open>
  C3 (amended): every request that returns gives a dictionary with exactly the entries
  \<open>text\<close> (a string), \<open>language\<close> (a string, or \<open>None\<close> when neither the library nor
  the configuration names one), \<open>duration\<close> (a float), \<open>segments\<close> (a non-negative
  integer), \<open>model_size\<close> (a string) and \<open>file_size_mb\<close> (a float), in this order; and
  a run of the script that ends with status 0 has printed that dictionary, unchanged, as
  its one line of standard output.
\<close>

theorem result_shape:
  "(fst (transcribe_file w self audio_path p) = Inr result \<longrightarrow>
      (\<exists>t l d n m f.
         result = [(''text'', PStr t), (''language'', l), (''duration'', PFloat d),
                   (''segments'', PInt (int n)), (''model_size'', PStr m),
                   (''file_size_mb'', PFloat f)] \<and>
         (l = PNone \<or> (\<exists>s. l = PStr s))))
   \<and> (fst (script w (Namespace a)) = 0 \<longrightarrow>
        (\<exists>r. fst (transcribe_file w (cli_transcriber w a) (audio_file a) initial_process) = Inr r \<and>
             stdout (snd (script w (Namespace a))) = [JsonLine r]))"
proof (intro conjI impI)
  assume ok: "fst (transcribe_file w self audio_path p) = Inr result"
  from transcribe_file_Inr[OF ok] obtain sz h segs info full_text n where
    f: "files w audio_path = Some sz" and a: "acquire_handle w self = Inr h"
    and d: "model_transcribe w h audio_path (language self) fixed_options = Inr (segs, info)"
    and l: "for_segments segs [] 0 = Inr (full_text, n)"
    by blast
  have shape: "result_language self info = PNone \<or> (\<exists>s. result_language self info = PStr s)"
    by (simp add: result_language_def split: option.splits)
  from transcribe_file_success[OF f a d l, of p] ok
  have "result = [(''text'', PStr (strip full_text)),
                  (''language'', result_language self info),
                  (''duration'', PFloat (transcription_seconds w)),
                  (''segments'', PInt (int n)),
                  (''model_size'', PStr (model_size self)),
                  (''file_size_mb'', PFloat (round2 (of_nat sz / (1024 * 1024))))]"
    by simp
  with shape show "\<exists>t l d n m f.
         result = [(''text'', PStr t), (''language'', l), (''duration'', PFloat d),
                   (''segments'', PInt (int n)), (''model_size'', PStr m),
                   (''file_size_mb'', PFloat f)] \<and>
         (l = PNone \<or> (\<exists>s. l = PStr s))"
    by blast
next
  assume z: "fst (script w (Namespace a)) = 0"
  then have i: "faster_whisper_installed w"
    by (auto simp: script_def uncaught_def split: if_splits option.splits)
  then have s: "script w (Namespace a) = main w (Namespace a) initial_process"
    by (simp add: script_def)
  from z have o: "fst (cli_outcome w a) = 0" by (simp add: s main_namespace)
  then obtain r where
    r: "fst (transcribe_file w (cli_transcriber w a) (audio_file a) initial_process) = Inr r"
    and c: "cli_outcome w a = (0, [JsonLine r])"
    by (auto simp: cli_outcome_def report_failure_def
        split: if_splits sum.splits exc.splits option.splits)
  have "stdout (snd (script w (Namespace a))) = [JsonLine r]"
    by (simp add: s main_namespace c initial_process_def)
  with r show "\<exists>r. fst (transcribe_file w (cli_transcriber w a) (audio_file a) initial_process) = Inr r \<and>
             stdout (snd (script w (Namespace a))) = [JsonLine r]"
    by blast
qed

theorem result_shape_witness:
  "fst (transcribe_file example_world (cli_transcriber example_world example_args) ''a.wav''
          initial_process) = Inr example_result
   \<and> fst (script example_world (Namespace example_args)) = 0
   \<and> stdout (snd (script example_world (Namespace example_args))) = [JsonLine example_result]"
proof -
  have t: "fst (transcribe_file example_world (cli_transcriber example_world example_args)
            ''a.wav'' initial_process) = Inr example_result"
    by (rule example_transcribe)
  have af: "audio_file example_args = ''a.wav''" by (simp add: example_args_def)
  have i: "faster_whisper_installed example_world" by (simp add: example_world_def)
  have z: "fst (script example_world (Namespace example_args)) = 0"
    using i by (simp add: script_def main_namespace example_outcome)
  from result_shape[of example_world "cli_transcriber example_world example_args" "''a.wav''"
         initial_process example_result example_args]
  show ?thesis by (simp add: t z af)
qed

subsection \<open>C4: the text is the joined segments\<close>

text \<open>
  C4: when the file exists, a handle is available and the decode call returns the finite
  sequence of segment texts \<open>ts\<close>, the request returns a result whose \<open>text\<close> is the
  texts joined with one space between consecutive ones, stripped of leading and trailing
  whitespace, and whose \<open>segments\<close> is the number of texts; for the empty sequence the
  text is empty and the count is 0.
\<close>

theorem text_is_joined_segments:
  assumes "os_path_exists (files w) audio_path"
    and "acquire_handle w self = Inr h"
    and "model_transcribe w h audio_path (language self) fixed_options =
           Inr (segments_of ts, info)"
  shows "\<exists>result.
           fst (transcribe_file w self audio_path p) = Inr result \<and>
           map_of result ''text'' = Some (PStr (strip (join_with_space ts))) \<and>
           map_of result ''segments'' = Some (PInt (int (length ts))) \<and>
           (ts = [] \<longrightarrow> map_of result ''text'' = Some (PStr []) \<and>
                        map_of result ''segments'' = Some (PInt 0))"
proof -
  from assms(1) obtain sz where f: "files w audio_path = Some sz"
    by (auto simp: os_path_exists_def)
  have l: "for_segments (segments_of ts) [] 0 =
             Inr (concat (map (\<lambda>t. t @ '' '') ts), length ts)"
    by (simp add: for_segments_of)
  from transcribe_file_success[OF f assms(2) assms(3) l, of p]
  show ?thesis
    by (simp add: strip_concat_spaced strip_nil)
qed

theorem text_is_joined_segments_witness:
  "os_path_exists (files example_world) ''a.wav''
   \<and> fst (transcribe_file example_world (cli_transcriber example_world example_args) ''a.wav''
            initial_process) = Inr example_result
   \<and> map_of example_result ''text'' = Some (PStr (strip (join_with_space ['' Hello'', '' world''])))
   \<and> map_of example_result ''segments'' = Some (PInt 2)"
proof -
  have e: "os_path_exists (files example_world) ''a.wav''"
    by (simp add: os_path_exists_def example_world_def)
  have a: "acquire_handle example_world (cli_transcriber example_world example_args) = Inr 7"
    by (simp add: acquire_handle_def example_world_def cli_transcriber_def
          FasterWhisperTranscriber_def)
  have d: "model_transcribe example_world 7 ''a.wav''
             (language (cli_transcriber example_world example_args)) fixed_options =
           Inr (segments_of ['' Hello'', '' world''], \<lparr>info_language = Some ''en''\<rparr>)"
    by (simp add: example_world_def)
  from text_is_joined_segments[OF e a d, of initial_process] example_transcribe[of initial_process]
  show ?thesis using e by auto
qed

subsection \<open>C5: the model is loaded lazily and once\<close>

text \<open>
  C5: a new transcriber holds no handle. Over any sequence of requests to one
  transcriber, the calls made to the library follow the discipline of lazy
  initialisation from the handle held at the start: a load is made only while no handle
  is held, every decode uses the handle held, the handle held at the end is the one the
  trace leaves, and at most one load succeeds (none when a handle was held from the
  start). A request that returns a result leaves a handle behind and has decoded with it.
\<close>

theorem lazy_model_handle:
  "model (FasterWhisperTranscriber w msize dev lang ctype) = None
   \<and> (\<exists>es. library_calls (snd (transcribe_calls cs self p)) = library_calls p @ es \<and>
            lazy_discipline (model self) es \<and>
            model (fst (transcribe_calls cs self p)) = handle_after (model self) es \<and>
            length (filter load_succeeded es) \<le> (if model self = None then 1 else 0))
   \<and> (\<forall>result. fst (transcribe_file w self audio_path p) = Inr result \<longrightarrow>
         (\<exists>h. model (fst (snd (transcribe_file w self audio_path p))) = Some h \<and>
              acquire_handle w self = Inr h \<and>
              Transcribe h audio_path (language self)
                \<in> set (library_calls (snd (snd (transcribe_file w self audio_path p))))))"
proof (intro conjI allI impI)
  show "model (FasterWhisperTranscriber w msize dev lang ctype) = None"
    by (simp add: FasterWhisperTranscriber_def)
next
  from transcribe_calls_trace[of cs self p] obtain es where
    e: "library_calls (snd (transcribe_calls cs self p)) = library_calls p @ es"
    and d: "lazy_discipline (model self) es"
    and h: "handle_after (model self) es = model (fst (transcribe_calls cs self p))"
    by blast
  from lazy_discipline_loads[OF d]
  have "length (filter load_succeeded es) \<le> (if model self = None then 1 else 0)" .
  with e d h show "\<exists>es. library_calls (snd (transcribe_calls cs self p)) = library_calls p @ es \<and>
            lazy_discipline (model self) es \<and>
            model (fst (transcribe_calls cs self p)) = handle_after (model self) es \<and>
            length (filter load_succeeded es) \<le> (if model self = None then 1 else 0)"
    by auto
next
  fix result
  assume ok: "fst (transcribe_file w self audio_path p) = Inr result"
  from transcribe_file_Inr[OF ok] obtain sz h where
    f: "files w audio_path = Some sz" and a: "acquire_handle w self = Inr h"
    by blast
  have m: "model (fst (snd (transcribe_file w self audio_path p))) = Some h"
    using f a by (simp add: transcribe_file_transcriber next_transcriber_def)
  have "Transcribe h audio_path (language self) \<in> set (request_calls w self audio_path)"
    using f a by (auto simp: request_calls_def acquire_handle_def split: option.splits)
  then have "Transcribe h audio_path (language self)
               \<in> set (library_calls (snd (snd (transcribe_file w self audio_path p))))"
    by (simp add: transcribe_file_calls)
  with m a show "\<exists>h. model (fst (snd (transcribe_file w self audio_path p))) = Some h \<and>
              acquire_handle w self = Inr h \<and>
              Transcribe h audio_path (language self)
                \<in> set (library_calls (snd (snd (transcribe_file w self audio_path p))))"
    by blast
qed

theorem lazy_model_handle_witness:
  "fst (transcribe_file example_world (cli_transcriber example_world example_args) ''a.wav''
          initial_process) = Inr example_result
   \<and> model (fst (snd (transcribe_file example_world
                         (cli_transcriber example_world example_args) ''a.wav''
                         initial_process))) = Some 7"
proof -
  have a: "acquire_handle example_world (cli_transcriber example_world example_args) = Inr 7"
    by (simp add: acquire_handle_def example_world_def cli_transcriber_def
          FasterWhisperTranscriber_def)
  from lazy_model_handle[of example_world "''tiny''" "''cpu''" None "''int8''" "[]"
         "cli_transcriber example_world example_args" initial_process "''a.wav''"]
       example_transcribe[of initial_process]
  show ?thesis by (auto simp: a)
qed

subsection \<open>C6: the language passed on and the language reported\<close>

text \<open>
  C6: when the command line says \<open>--language auto\<close>, every decode call of the run is
  given no language. For every request that returns, the \<open>language\<close> of the result is
  the one the info object of the decode call carries, and the configured language when
  it carries none.
\<close>

theorem language_auto_and_result:
  "(arg_language a = ''auto'' \<longrightarrow>
      (\<forall>h path l. Transcribe h path l \<in> set (library_calls (snd (script w (Namespace a))))
         \<longrightarrow> l = None))
   \<and> (\<forall>result. fst (transcribe_file w self audio_path p) = Inr result \<longrightarrow>
         (\<exists>h segs info.
            acquire_handle w self = Inr h \<and>
            model_transcribe w h audio_path (language self) fixed_options = Inr (segs, info) \<and>
            map_of result ''language'' =
              Some (case info_language info of
                      Some l \<Rightarrow> PStr l
                    | None \<Rightarrow> (case language self of Some l \<Rightarrow> PStr l | None \<Rightarrow> PNone))))"
proof (intro conjI allI impI)
  fix h path l
  assume auto: "arg_language a = ''auto''"
    and ev: "Transcribe h path l \<in> set (library_calls (snd (script w (Namespace a))))"
  have lang: "language (cli_transcriber w a) = None"
    using auto by (simp add: cli_transcriber_def FasterWhisperTranscriber_def
                     normalize_language_def)
  from ev have i: "faster_whisper_installed w"
    by (auto simp: script_def initial_process_def uncaught_def split: if_splits option.splits)
  then have "script w (Namespace a) = main w (Namespace a) initial_process"
    by (simp add: script_def)
  with ev have "Transcribe h path l \<in> set (request_calls w (cli_transcriber w a) (audio_file a))"
    by (auto simp: main_namespace_calls initial_process_def split: if_splits)
  from request_calls_language[OF this] lang show "l = None" by simp
next
  fix result
  assume ok: "fst (transcribe_file w self audio_path p) = Inr result"
  from transcribe_file_Inr[OF ok] obtain sz h segs info full_text n where
    f: "files w audio_path = Some sz" and a: "acquire_handle w self = Inr h"
    and d: "model_transcribe w h audio_path (language self) fixed_options = Inr (segs, info)"
    and l: "for_segments segs [] 0 = Inr (full_text, n)"
    by blast
  from transcribe_file_success[OF f a d l, of p] ok
  have "map_of result ''language'' = Some (result_language self info)" by auto
  then have "map_of result ''language'' =
              Some (case info_language info of
                      Some l \<Rightarrow> PStr l
                    | None \<Rightarrow> (case language self of Some l \<Rightarrow> PStr l | None \<Rightarrow> PNone))"
    by (simp add: result_language_def)
  with a d show "\<exists>h segs info.
            acquire_handle w self = Inr h \<and>
            model_transcribe w h audio_path (language self) fixed_options = Inr (segs, info) \<and>
            map_of result ''language'' =
              Some (case info_language info of
                      Some l \<Rightarrow> PStr l
                    | None \<Rightarrow> (case language self of Some l \<Rightarrow> PStr l | None \<Rightarrow> PNone))"
    by blast
qed

theorem language_auto_and_result_witness:
  "arg_language example_args = ''auto''
   \<and> Transcribe 7 ''a.wav'' None
        \<in> set (library_calls (snd (script example_world (Namespace example_args))))
   \<and> fst (transcribe_file example_world (cli_transcriber example_world example_args) ''a.wav''
            initial_process) = Inr example_result
   \<and> map_of example_result ''language'' = Some (PStr ''en'')"
proof -
  have l: "arg_language example_args = ''auto''" by (simp add: example_args_def)
  have t: "fst (transcribe_file example_world (cli_transcriber example_world example_args)
            ''a.wav'' initial_process) = Inr example_result"
    by (rule example_transcribe)
  have a: "acquire_handle example_world (cli_transcriber example_world example_args) = Inr 7"
    by (simp add: acquire_handle_def example_world_def cli_transcriber_def
          FasterWhisperTranscriber_def)
  have d: "model_transcribe example_world 7 ''a.wav''
             (language (cli_transcriber example_world example_args)) fixed_options =
           Inr (segments_of ['' Hello'', '' world''], \<lparr>info_language = Some ''en''\<rparr>)"
    by (simp add: example_world_def)
  from language_auto_and_result[of example_args example_world
         "cli_transcriber example_world example_args" "''a.wav''" initial_process]
  show ?thesis using l t a d by (auto simp: example_calls)
qed

subsection \<open>C7: the harness removes its test file\<close>

text \<open>
  C7: when the harness has reached the creation of its test audio file and the file was
  created, then on every path on which \<open>test_transcription\<close> returns the file is gone
  when it returns: after success, after output that is not JSON, after a non-zero status
  of the child, after the timeout and after any other exception the harness catches.
  The function does return when no print raises, \<open>os.remove\<close> does not refuse the file,
  neither the run of the child nor \<open>json.loads\<close> is interrupted, and the import of the
  library raises nothing but the import error.
\<close>

theorem harness_cleans_up:
  assumes "before_audio h = Next" and "create_test_audio h fs = (Some f, fs1)"
  shows "(\<forall>b. fst (test_transcription h fs) = Inr b \<longrightarrow> f \<notin> snd (test_transcription h fs))
         \<and> ((\<forall>l. print_raises h l = None) \<and>
             (\<forall>fs'. remove_error h f fs' = None) \<and>
             (\<forall>t. json_loads h t \<noteq> Inl Interrupted) \<and>
             fst (transcription_run h fs1) \<noteq> Inl Interrupted \<and>
             (import_faster_whisper h = None \<or> import_faster_whisper h = Some ImportError)
             \<longrightarrow> (\<exists>b. fst (test_transcription h fs) = Inr b))"
proof (intro conjI allI impI)
  fix b
  assume r: "fst (test_transcription h fs) = Inr b"
  obtain fl fs2 where at: "audio_test h f fs1 = (fl, fs2)" by (cases "audio_test h f fs1")
  note tt = test_transcription_created[OF assms, unfolded at]
  show "f \<notin> snd (test_transcription h fs)"
  proof (cases fl)
    case Next
    with at have "f \<notin> fs2" by (simp add: audio_test_Next)
    with Next show ?thesis by (simp add: tt)
  next
    case (Return c)
    with at have "f \<notin> fs2" by (simp add: audio_test_Return)
    with Return show ?thesis by (simp add: tt)
  next
    case (Throw e)
    with r show ?thesis by (simp add: tt)
  qed
next
  assume q: "(\<forall>l. print_raises h l = None) \<and>
             (\<forall>fs'. remove_error h f fs' = None) \<and>
             (\<forall>t. json_loads h t \<noteq> Inl Interrupted) \<and>
             fst (transcription_run h fs1) \<noteq> Inl Interrupted \<and>
             (import_faster_whisper h = None \<or> import_faster_whisper h = Some ImportError)"
  obtain fl fs2 where at: "audio_test h f fs1 = (fl, fs2)" by (cases "audio_test h f fs1")
  note tt = test_transcription_created[OF assms, unfolded at]
  from q have "fst (audio_test h f fs1) = Next \<or> (\<exists>b. fst (audio_test h f fs1) = Return b)"
    by (intro audio_test_quiet) simp_all
  with at have "fl = Next \<or> (\<exists>b. fl = Return b)" by simp
  moreover from q have "requirements_check h = Inr False"
    by (intro requirements_check_quiet) simp_all
  ultimately show "\<exists>b. fst (test_transcription h fs) = Inr b"
    by (auto simp: tt)
qed

theorem harness_cleans_up_witness:
  "before_audio example_host = Next
   \<and> create_test_audio example_host {} =
       (Some ''/tmp/test_audio.wav'', {''/tmp/test_audio.wav''})
   \<and> (\<forall>l. print_raises example_host l = None)
   \<and> (\<forall>fs'. remove_error example_host ''/tmp/test_audio.wav'' fs' = None)
   \<and> (\<forall>t. json_loads example_host t \<noteq> Inl Interrupted)
   \<and> fst (transcription_run example_host {''/tmp/test_audio.wav''}) \<noteq> Inl Interrupted
   \<and> import_faster_whisper example_host = Some ImportError
   \<and> test_transcription example_host {} = (Inr False, {})
   \<and> ''/tmp/test_audio.wav'' \<notin> snd (test_transcription example_host {})"
proof -
  have q: "(\<forall>l. print_raises example_host l = None)
           \<and> (\<forall>fs'. remove_error example_host ''/tmp/test_audio.wav'' fs' = None)
           \<and> (\<forall>t. json_loads example_host t \<noteq> Inl Interrupted)
           \<and> fst (transcription_run example_host {''/tmp/test_audio.wav''}) \<noteq> Inl Interrupted
           \<and> import_faster_whisper example_host = Some ImportError"
    by (simp add: example_host_def)
  from harness_cleans_up[OF example_before example_created] q example_harness_run
  show ?thesis using example_before example_created by simp
qed

subsection \<open>C8: the verbose flag does not reach standard output\<close>


text \<open>The flag is not without effect: on the concrete run it changes standard error.\<close>

lemma verbose_changes_stderr:
  "stderr (snd (script example_world (Namespace (example_args\<lparr>verbose := True\<rparr>)))) \<noteq>
   stderr (snd (script example_world (Namespace (example_args\<lparr>verbose := False\<rparr>))))"
  by (simp add: script_def main_def main_try_def example_args_def validate_audio_file_eq
        path_suffix_def path_name_def path_parts_def name_suffix_def lower_def lower_char_def
        valid_extensions_def transcribe_file_def transcribe_try_def load_model_def
        logger_info_def logger_log_def called_def print_json_def os_path_exists_def
        os_path_getsize_def FasterWhisperTranscriber_def INFO_def WARNING_def
        initial_process_def example_world_def ascii_stdout_def isspace_def strip_def
        lstrip_def rstrip_def Let_def)

subsection \<open>C9: the validator never raises\<close>

text \<open>
  C9: \<open>validate_audio_file\<close> returns a boolean on every path and every file system.
  Existence is checked first, so on a path that does not exist, which is where
  the size query would raise, the answer is false and no exception leaves the function.
\<close>

theorem validate_total:
  "(\<exists>b. validate_audio_file fs p = Inr b)
   \<and> (\<not> os_path_exists fs p \<longrightarrow> validate_audio_file fs p = Inr False)
   \<and> (isl (os_path_getsize fs p) \<longrightarrow> validate_audio_file fs p = Inr False)"
  unfolding validate_audio_file_eq
  by (auto simp: os_path_exists_def os_path_getsize_def split: option.splits)

theorem validate_total_witness:
  "\<not> os_path_exists Map.empty ''missing.wav''
   \<and> isl (os_path_getsize Map.empty ''missing.wav'')
   \<and> validate_audio_file Map.empty ''missing.wav'' = Inr False"
  using validate_total[of Map.empty "''missing.wav''"]
  by (simp add: os_path_exists_def os_path_getsize_def)

subsection \<open>C10: the constructor normalises the language\<close>

text \<open>
  C10: the constructor stores no language (auto-detect) when its argument is \<open>None\<close>,
  the empty string or the string \<open>auto\<close>, and stores every other string as it is.
\<close>

theorem constructor_language:
  "language (FasterWhisperTranscriber w msize dev lang ctype) =
     (if lang = None \<or> lang = Some [] \<or> lang = Some ''auto'' then None else lang)"
  by (auto simp: FasterWhisperTranscriber_def normalize_language_def split: option.splits)

end
